theory Spec2Isabelle
  imports Main "HOL-Library.Word" "HOL-Library.Sublist"
begin

unbundle bit_operations_syntax

section \<open>Python values\<close>

text \<open>
  A Python \<open>bytes\<close> object is a list of 8-bit words. A Python \<open>str\<close> is a list of
  Unicode code points, each a natural number: a decoded file may hold any code point, so
  the 8-bit \<open>char\<close> of HOL is too small. \<open>lit\<close> embeds an ASCII literal of the source.
\<close>

type_synonym byte = "8 word"
type_synonym pystr = "nat list"

definition lit :: "string \<Rightarrow> pystr" where
  "lit s = map of_char s"

text \<open>
  The exceptions that the script can meet. \<open>OSError\<close> carries the message of the
  failed system call. \<open>Exception\<close> stands for any other instance of Python's class
  \<open>Exception\<close> (a tool error, a connection error); \<open>NonException\<close> for an instance of
  \<open>BaseException\<close> outside \<open>Exception\<close> (\<open>KeyboardInterrupt\<close>,
  \<open>asyncio.CancelledError\<close>), which an \<open>except Exception\<close> clause does not catch.
\<close>

datatype exn =
    PermissionError
  | OSError pystr
  | ValueError
  | UnicodeDecodeError
  | UnicodeEncodeError
  | KeyError pystr
  | Exception pystr
  | NonException pystr

fun is_Exception :: "exn \<Rightarrow> bool" where
  "is_Exception (NonException _) = False"
| "is_Exception _ = True"

section \<open>The codecs of the standard library\<close>

subsection \<open>\<open>bytes.decode("utf-8")\<close>\<close>

text \<open>
  The strict UTF-8 decoder: shortest form only, no surrogates, nothing above U+10FFFF.
  \<open>None\<close> is \<open>UnicodeDecodeError\<close>.
\<close>

definition is_cont :: "byte \<Rightarrow> bool" where
  "is_cont b \<longleftrightarrow> b AND 0xC0 = 0x80"

fun utf8_decode :: "byte list \<Rightarrow> pystr option" where
  "utf8_decode [] = Some []"
| "utf8_decode (b0 # bs) =
     (if b0 < 0x80 then map_option ((#) (unat b0)) (utf8_decode bs)
      else if 0xC2 \<le> b0 \<and> b0 \<le> 0xDF then
        (case bs of
           b1 # r \<Rightarrow>
             if is_cont b1
             then map_option ((#) (unat (b0 AND 0x1F) * 64 + unat (b1 AND 0x3F)))
                    (utf8_decode r)
             else None
         | _ \<Rightarrow> None)
      else if 0xE0 \<le> b0 \<and> b0 \<le> 0xEF then
        (case bs of
           b1 # b2 # r \<Rightarrow>
             if is_cont b1 \<and> is_cont b2
                \<and> (b0 = 0xE0 \<longrightarrow> 0xA0 \<le> b1) \<and> (b0 = 0xED \<longrightarrow> b1 \<le> 0x9F)
             then map_option ((#) (unat (b0 AND 0x0F) * 4096 + unat (b1 AND 0x3F) * 64
                                   + unat (b2 AND 0x3F))) (utf8_decode r)
             else None
         | _ \<Rightarrow> None)
      else if 0xF0 \<le> b0 \<and> b0 \<le> 0xF4 then
        (case bs of
           b1 # b2 # b3 # r \<Rightarrow>
             if is_cont b1 \<and> is_cont b2 \<and> is_cont b3
                \<and> (b0 = 0xF0 \<longrightarrow> 0x90 \<le> b1) \<and> (b0 = 0xF4 \<longrightarrow> b1 \<le> 0x8F)
             then map_option ((#) (unat (b0 AND 0x07) * 262144 + unat (b1 AND 0x3F) * 4096
                                   + unat (b2 AND 0x3F) * 64 + unat (b3 AND 0x3F)))
                    (utf8_decode r)
             else None
         | _ \<Rightarrow> None)
      else None)"

subsection \<open>\<open>base64.b64encode\<close> and \<open>base64.b64decode\<close>\<close>

text \<open>
  The standard alphabet as a table, as \<open>binascii\<close> has it. A sextet is the low six bits
  of a byte (\<open>take_bit 6 s\<close> is \<open>s & 0x3f\<close>).
\<close>

definition b64_alphabet :: "byte list" where
  "b64_alphabet =
     map of_char ''ABCDEFGHIJKLMNOPQRSTUVWXYZabcdefghijklmnopqrstuvwxyz0123456789+/''"

definition b64_pad :: byte where
  "b64_pad = of_char CHR ''=''"

definition b64char :: "byte \<Rightarrow> byte" where
  "b64char s = b64_alphabet ! unat (take_bit 6 s)"

fun b64encode :: "byte list \<Rightarrow> byte list" where
  "b64encode (a # b # c # r) =
     [b64char (drop_bit 2 a), b64char (push_bit 4 a OR drop_bit 4 b),
      b64char (push_bit 2 b OR drop_bit 6 c), b64char c] @ b64encode r"
| "b64encode [a, b] =
     [b64char (drop_bit 2 a), b64char (push_bit 4 a OR drop_bit 4 b),
      b64char (push_bit 2 b), b64_pad]"
| "b64encode [a] =
     [b64char (drop_bit 2 a), b64char (push_bit 4 a), b64_pad, b64_pad]"
| "b64encode [] = []"

text \<open>
  The decoder is the inverse table, read four characters at a time; padding may only
  close the last group. \<open>None\<close> is \<open>binascii.Error\<close>. This is the decoder of RFC 4648 that
  a receiver of the \<open>push_files\<close> payload applies; the script itself never decodes.
\<close>

fun index_of :: "'a \<Rightarrow> 'a list \<Rightarrow> nat option" where
  "index_of x [] = None"
| "index_of x (y # ys) = (if x = y then Some 0 else map_option Suc (index_of x ys))"

definition b64val :: "nat \<Rightarrow> byte option" where
  "b64val c =
     (if c < 256 then map_option of_nat (index_of (of_nat c) b64_alphabet) else None)"

definition b64_quad :: "nat \<Rightarrow> nat \<Rightarrow> nat \<Rightarrow> nat \<Rightarrow> byte list option" where
  "b64_quad c0 c1 c2 c3 =
     (case (b64val c0, b64val c1, b64val c2, b64val c3) of
        (Some s0, Some s1, Some s2, Some s3) \<Rightarrow>
          Some [push_bit 2 s0 OR drop_bit 4 s1, push_bit 4 s1 OR drop_bit 2 s2,
                push_bit 6 s2 OR s3]
      | _ \<Rightarrow> None)"

definition b64_last :: "nat \<Rightarrow> nat \<Rightarrow> nat \<Rightarrow> nat \<Rightarrow> byte list option" where
  "b64_last c0 c1 c2 c3 =
     (if c3 \<noteq> 61 then b64_quad c0 c1 c2 c3
      else if c2 \<noteq> 61 then
        (case (b64val c0, b64val c1, b64val c2) of
           (Some s0, Some s1, Some s2) \<Rightarrow>
             Some [push_bit 2 s0 OR drop_bit 4 s1, push_bit 4 s1 OR drop_bit 2 s2]
         | _ \<Rightarrow> None)
      else
        (case (b64val c0, b64val c1) of
           (Some s0, Some s1) \<Rightarrow> Some [push_bit 2 s0 OR drop_bit 4 s1]
         | _ \<Rightarrow> None))"

fun b64decode :: "pystr \<Rightarrow> byte list option" where
  "b64decode [] = Some []"
| "b64decode (c0 # c1 # c2 # c3 # r) =
     (if r = [] then b64_last c0 c1 c2 c3
      else case (b64_quad c0 c1 c2 c3, b64decode r) of
        (Some x, Some y) \<Rightarrow> Some (x @ y)
      | _ \<Rightarrow> None)"
| "b64decode _ = None"

section \<open>Paths\<close>

text \<open>
  A pure path is its anchor (\<open>""\<close>, \<open>"/"\<close> or \<open>"//"\<close> on POSIX) and its parts.
  \<open>PurePosixPath s\<close> parses a string as \<open>pathlib\<close> does: the leading slashes go to the
  anchor (exactly two are kept as two), the rest is split at \<open>/\<close>, and the empty and the
  \<open>.\<close> components are dropped.
\<close>

record PurePath =
  anchor :: pystr
  parts :: "pystr list"

definition slash :: nat where
  "slash = 47"

definition dot :: nat where
  "dot = 46"

fun split_sep :: "nat \<Rightarrow> pystr \<Rightarrow> pystr list" where
  "split_sep sep [] = [[]]"
| "split_sep sep (x # xs) =
     (if x = sep then [] # split_sep sep xs
      else (x # hd (split_sep sep xs)) # tl (split_sep sep xs))"

definition splitroot :: "pystr \<Rightarrow> pystr \<times> pystr" where
  "splitroot p =
     (if take 1 p \<noteq> [slash] then ([], p)
      else if take 1 (drop 1 p) \<noteq> [slash] \<or> take 1 (drop 2 p) = [slash]
        then ([slash], drop 1 p)
      else ([slash, slash], drop 2 p))"

definition PurePosixPath :: "pystr \<Rightarrow> PurePath" where
  "PurePosixPath s =
     \<lparr>anchor = fst (splitroot s),
      parts = filter (\<lambda>x. x \<noteq> [] \<and> x \<noteq> [dot]) (split_sep slash (snd (splitroot s)))\<rparr>"

text \<open>
  \<open>a / b\<close>: an anchored right operand replaces the left one, a relative one appends its
  parts. The parts of a \<open>Path\<close> operand are taken as they are, whatever separator the host
  prints between them.
\<close>

definition truediv :: "PurePath \<Rightarrow> PurePath \<Rightarrow> PurePath" where
  "truediv a b = (if anchor b \<noteq> [] then b else a\<lparr>parts := parts a @ parts b\<rparr>)"

fun join_sep :: "pystr \<Rightarrow> pystr list \<Rightarrow> pystr" where
  "join_sep sep [] = []"
| "join_sep sep [x] = x"
| "join_sep sep (x # y # ys) = x @ sep @ join_sep sep (y # ys)"

definition str_path :: "PurePath \<Rightarrow> pystr" where
  "str_path p =
     (if anchor p = [] \<and> parts p = [] then [dot]
      else anchor p @ join_sep [slash] (parts p))"

definition name :: "PurePath \<Rightarrow> pystr" where
  "name p = (if parts p = [] then [] else last (parts p))"

definition relative_to :: "PurePath \<Rightarrow> PurePath \<Rightarrow> exn + PurePath" where
  "relative_to p other =
     (if anchor p = anchor other \<and> prefix (parts other) (parts p)
      then Inr \<lparr>anchor = [], parts = drop (length (parts other)) (parts p)\<rparr>
      else Inl ValueError)"

text \<open>\<open>Path(dir_name)\<close> on a POSIX host.\<close>

definition Path :: "pystr \<Rightarrow> PurePath" where
  "Path s = PurePosixPath s"

section \<open>The local file system\<close>

text \<open>
  What a directory entry is: a regular file with its bytes (or a symbolic link to one),
  a regular file that cannot be opened, a directory with its entries in the order that
  the scan reports them, a symbolic link to a directory with the entries of that
  directory, or something else (a socket, a dangling link). The entries of a real
  directory have different names; no statement below needs that.

  The file system says what the \<open>stat\<close> of the root path gives: an entry, no entry
  (\<open>ENOENT\<close>, \<open>ENOTDIR\<close>, \<open>EBADF\<close>, \<open>ELOOP\<close>, which \<open>pathlib\<close> reads as "does not
  exist"), or any other error of the system call, such as \<open>ENAMETOOLONG\<close> for a name
  longer than the file system allows, which \<open>pathlib\<close> raises as \<open>OSError\<close>.
\<close>

datatype node =
    File "byte list"
  | Unreadable
  | Dir "(pystr \<times> node) list"
  | DirLink "(pystr \<times> node) list"
  | Special

type_synonym filesystem = "PurePath \<Rightarrow> exn + node option"

definition child :: "PurePath \<Rightarrow> pystr \<Rightarrow> PurePath" where
  "child p n = p\<lparr>parts := parts p @ [n]\<rparr>"

text \<open>
  \<open>root.rglob("*")\<close>: every entry below the root, the entries of a directory first and then
  those of its subdirectories, one after the other. A symbolic link to a directory is
  listed as an entry, and the walk does not go into it. The root itself is followed when
  it is such a link. A root with no entry, or with an entry that is not a directory,
  yields nothing; a root whose \<open>stat\<close> fails otherwise raises that error.
\<close>

fun walk :: "PurePath \<Rightarrow> node \<Rightarrow> (PurePath \<times> node) list"
  and walk_subdirs :: "PurePath \<Rightarrow> (pystr \<times> node) list \<Rightarrow> (PurePath \<times> node) list" where
  "walk p (Dir es) = map (\<lambda>(n, c). (child p n, c)) es @ walk_subdirs p es"
| "walk p (DirLink es) = []"
| "walk p (File raw) = []"
| "walk p Unreadable = []"
| "walk p Special = []"
| "walk_subdirs p [] = []"
| "walk_subdirs p ((n, c) # es) = walk (child p n) c @ walk_subdirs p es"

fun resolve :: "node \<Rightarrow> node" where
  "resolve (DirLink es) = Dir es"
| "resolve nd = nd"

definition rglob :: "filesystem \<Rightarrow> PurePath \<Rightarrow> exn + (PurePath \<times> node) list" where
  "rglob fs root =
     (case fs root of
        Inl e \<Rightarrow> Inl e
      | Inr None \<Rightarrow> Inr []
      | Inr (Some nd) \<Rightarrow> Inr (walk root (resolve nd)))"

text \<open>
  For stating what lies under a root: the path \<open>rel\<close> below \<open>root\<close>; the node that a
  relative path leads to from a node, by the first entry of each name, as the system
  resolves the path, through links to directories too (\<open>lookup\<close>); the same through real
  directories only (\<open>reach\<close>); and the entries of a walk that did not raise.
\<close>

definition below :: "PurePath \<Rightarrow> pystr list \<Rightarrow> PurePath" where
  "below root rel = root\<lparr>parts := parts root @ rel\<rparr>"

fun lookup :: "node \<Rightarrow> pystr list \<Rightarrow> node option" where
  "lookup nd [] = Some nd"
| "lookup (Dir es) (n # ns) = (case map_of es n of None \<Rightarrow> None | Some c \<Rightarrow> lookup c ns)"
| "lookup (DirLink es) (n # ns) =
     (case map_of es n of None \<Rightarrow> None | Some c \<Rightarrow> lookup c ns)"
| "lookup nd (n # ns) = None"

fun reach :: "node \<Rightarrow> pystr list \<Rightarrow> node option" where
  "reach nd [] = Some nd"
| "reach (Dir es) (n # ns) = (case map_of es n of None \<Rightarrow> None | Some c \<Rightarrow> reach c ns)"
| "reach nd (n # ns) = None"

definition walked :: "filesystem \<Rightarrow> PurePath \<Rightarrow> (PurePath \<times> node) list" where
  "walked fs root = (case rglob fs root of Inl e \<Rightarrow> [] | Inr ents \<Rightarrow> ents)"

fun is_dir :: "node \<Rightarrow> bool" where
  "is_dir (Dir es) = True"
| "is_dir (DirLink es) = True"
| "is_dir nd = False"

fun is_file :: "node \<Rightarrow> bool" where
  "is_file (File raw) = True"
| "is_file Unreadable = True"
| "is_file (Dir es) = False"
| "is_file (DirLink es) = False"
| "is_file Special = False"

text \<open>
  \<open>p.read_bytes()\<close>: the bytes of a regular file, \<open>PermissionError\<close> for one that cannot
  be opened; the other two errors are never met, since the loop reads regular files only.
\<close>

fun read_bytes :: "node \<Rightarrow> exn + byte list" where
  "read_bytes (File raw) = Inr raw"
| "read_bytes Unreadable = Inl PermissionError"
| "read_bytes (Dir es) = Inl (OSError (lit ''Is a directory''))"
| "read_bytes (DirLink es) = Inl (OSError (lit ''Is a directory''))"
| "read_bytes Special = Inl (OSError (lit ''No such device or address''))"

section \<open>The file collector\<close>

text \<open>
  A record of the payload is a Python dict from field names to strings.
  \<open>mimetypes.guess_type\<close> reads the tables of the host, so it is a parameter
  \<open>guess_type\<close> from a file name to the guessed type, if any.
\<close>

type_synonym file_record = "string \<rightharpoonup> pystr"

definition is_text_mime :: "pystr option \<Rightarrow> bool" where
  "is_text_mime mime =
     (case mime of None \<Rightarrow> False | Some m \<Rightarrow> m \<noteq> [] \<and> prefix (lit ''text/'') m)"

text \<open>
  The \<open>try\<close> block of the loop body: \<open>Some\<close> is the record appended before \<open>continue\<close>,
  \<open>None\<close> is falling through to the binary branch, either because the type is not text
  or because \<open>UnicodeDecodeError\<close> was caught.
\<close>

definition text_record :: "pystr option \<Rightarrow> pystr \<Rightarrow> byte list \<Rightarrow> file_record option" where
  "text_record mime remote_path raw =
     (if is_text_mime mime then
        (case utf8_decode raw of
           Some txt \<Rightarrow> Some [''path'' \<mapsto> remote_path, ''content'' \<mapsto> txt]
         | None \<Rightarrow> None)
      else None)"

text \<open>The binary branch; its \<open>.decode()\<close> stands outside the \<open>try\<close>.\<close>

definition binary_record :: "pystr \<Rightarrow> byte list \<Rightarrow> exn + file_record" where
  "binary_record remote_path raw =
     (case utf8_decode (b64encode raw) of
        None \<Rightarrow> Inl UnicodeDecodeError
      | Some s \<Rightarrow>
          Inr [''path'' \<mapsto> remote_path, ''content'' \<mapsto> s, ''encoding'' \<mapsto> lit ''base64''])"

definition collect_one ::
  "(pystr \<Rightarrow> pystr option) \<Rightarrow> PurePath \<Rightarrow> pystr \<Rightarrow> PurePath \<Rightarrow> node \<Rightarrow> exn + file_record"
where
  "collect_one guess_type root remote_prefix p nd =
     (case relative_to p root of
        Inl e \<Rightarrow> Inl e
      | Inr rel \<Rightarrow>
          let remote_path = str_path (truediv (PurePosixPath remote_prefix) rel) in
          (case read_bytes nd of
             Inl e \<Rightarrow> Inl e
           | Inr raw \<Rightarrow>
               (case text_record (guess_type (name p)) remote_path raw of
                  Some r \<Rightarrow> Inr r
                | None \<Rightarrow> binary_record remote_path raw)))"

fun collect_loop ::
  "(pystr \<Rightarrow> pystr option) \<Rightarrow> PurePath \<Rightarrow> pystr \<Rightarrow> (PurePath \<times> node) list
     \<Rightarrow> file_record list \<Rightarrow> exn + file_record list"
where
  "collect_loop guess_type root remote_prefix [] files = Inr files"
| "collect_loop guess_type root remote_prefix ((p, nd) # rest) files =
     (if \<not> is_file nd then collect_loop guess_type root remote_prefix rest files
      else case collect_one guess_type root remote_prefix p nd of
        Inl e \<Rightarrow> Inl e
      | Inr r \<Rightarrow> collect_loop guess_type root remote_prefix rest (files @ [r]))"

definition mCall_CollectFiles ::
  "filesystem \<Rightarrow> (pystr \<Rightarrow> pystr option) \<Rightarrow> PurePath \<Rightarrow> pystr \<Rightarrow> exn + file_record list"
where
  "mCall_CollectFiles fs guess_type root remote_prefix =
     (case rglob fs root of
        Inl e \<Rightarrow> Inl e
      | Inr ents \<Rightarrow> collect_loop guess_type root remote_prefix ents [])"

section \<open>The publish workflow\<close>

text \<open>
  The arguments of a tool call are a Python dict whose values are strings or, under
  \<open>"files"\<close>, the list of records.
\<close>

datatype pyval = Str pystr | Files "file_record list"

type_synonym args = "string \<rightharpoonup> pyval"

text \<open>
  The remote service is an external collaborator with a state of its own, of type \<open>'r\<close>.
  Entering the client context with the token either fails or opens the session; the
  catalog lists the tools by name; a tool call changes the remote state and either
  returns or raises; leaving the context releases the session.
\<close>

type_synonym 'r tool = "args \<Rightarrow> 'r \<Rightarrow> exn option \<times> 'r"

record 'r remote =
  connect :: "pystr \<Rightarrow> 'r \<Rightarrow> exn option \<times> 'r"
  get_tools :: "'r \<Rightarrow> (pystr \<times> 'r tool) list"
  release :: "'r \<Rightarrow> 'r"

text \<open>
  What a run does is observed as a trace: the session acquired (with the token handed to
  the subprocess), each tool call with its arguments and its outcome, each line that
  was printed, the session released.
\<close>

datatype event =
    Acquire pystr
  | Invoke pystr args "exn option"
  | Print pystr
  | Release

type_synonym 'r world = "'r \<times> event list"

definition invoke :: "pystr \<Rightarrow> 'r tool \<Rightarrow> args \<Rightarrow> 'r world \<Rightarrow> exn option \<times> 'r world" where
  "invoke nm t a w =
     (case t a (fst w) of (res, s') \<Rightarrow> (res, (s', snd w @ [Invoke nm a res])))"

text \<open>
  \<open>print(msg)\<close> writes to the standard output of the process, which encodes the text;
  \<open>stdout\<close> says which texts it can encode. A line that it cannot encode (the emoji
  and the Hangul of the three lines on an ASCII or cp949 console) raises
  \<open>UnicodeEncodeError\<close> and prints nothing.
\<close>

definition print :: "(pystr \<Rightarrow> bool) \<Rightarrow> pystr \<Rightarrow> 'r world \<Rightarrow> exn option \<times> 'r world" where
  "print stdout msg w =
     (if stdout msg then (None, (fst w, snd w @ [Print msg]))
      else (Some UnicodeEncodeError, w))"

text \<open>
  \<open>tool_map[k]\<close>: the dict comprehension keeps the last tool of each name, and a missing
  name raises \<open>KeyError\<close>.
\<close>

definition tool_map :: "(pystr \<times> 'r tool) list \<Rightarrow> pystr \<Rightarrow> exn + 'r tool" where
  "tool_map tools k =
     (case map_of (rev tools) k of None \<Rightarrow> Inl (KeyError k) | Some t \<Rightarrow> Inr t)"

definition create_branch_args :: "pystr \<Rightarrow> args" where
  "create_branch_args branch_name =
     [''owner'' \<mapsto> Str (lit ''SGCS-Release-Git-Project''),
      ''repo'' \<mapsto> Str (lit ''release-collect-game''),
      ''branch'' \<mapsto> Str branch_name,
      ''from_branch'' \<mapsto> Str (lit ''main'')]"

definition push_files_args :: "pystr \<Rightarrow> file_record list \<Rightarrow> pystr \<Rightarrow> args" where
  "push_files_args branch_name files pr_title =
     [''owner'' \<mapsto> Str (lit ''SGCS-Release-Git-Project''),
      ''repo'' \<mapsto> Str (lit ''release-collect-game''),
      ''branch'' \<mapsto> Str branch_name,
      ''files'' \<mapsto> Files files,
      ''message'' \<mapsto> Str pr_title]"

definition create_pull_request_args :: "pystr \<Rightarrow> pystr \<Rightarrow> pystr \<Rightarrow> args" where
  "create_pull_request_args pr_title pr_body branch_name =
     [''owner'' \<mapsto> Str (lit ''SGCS-Release-Git-Project''),
      ''repo'' \<mapsto> Str (lit ''release-collect-game''),
      ''title'' \<mapsto> Str pr_title,
      ''body'' \<mapsto> Str pr_body,
      ''head'' \<mapsto> Str branch_name,
      ''base'' \<mapsto> Str (lit ''main'')]"

text \<open>The three printed lines, code point by code point.\<close>

definition msg_branch_created :: "pystr \<Rightarrow> pystr" where
  "msg_branch_created branch_name =
     [0x2705, 0x20, 0xBE0C, 0xB79C, 0xCE58, 0x20, 0x27] @ branch_name
       @ [0x27, 0x20, 0xC0DD, 0xC131]"

definition msg_branch_exists :: "pystr \<Rightarrow> pystr" where
  "msg_branch_exists branch_name =
     [0x2139, 0xFE0F, 0x20, 0x20, 0x27] @ branch_name
       @ [0x27, 0x20, 0xBE0C, 0xB79C, 0xCE58, 0x20, 0xC774, 0xBBF8, 0x20, 0xC874, 0xC7AC,
          0x20, 0x2014, 0x20, 0xACC4, 0xC18D, 0x20, 0xC9C4, 0xD589]"

definition msg_pr_done :: pystr where
  "msg_pr_done =
     [0x1F389, 0x20, 0x20, 0x50, 0x52, 0x20, 0xC0DD, 0xC131, 0x20, 0xC644, 0xB8CC, 0x21]"

text \<open>
  Step 4, the guarded branch creation. The \<open>try\<close> block is the call and then the line
  printed on success. An instance of \<open>Exception\<close> raised by either is caught, and the
  handler prints the other line, which may raise in its turn; anything else goes on up.
\<close>

definition try_create_branch ::
  "(pystr \<Rightarrow> bool) \<Rightarrow> 'r tool \<Rightarrow> pystr \<Rightarrow> 'r world \<Rightarrow> exn option \<times> 'r world"
where
  "try_create_branch stdout create_branch branch_name w =
     (case
        (case invoke (lit ''create_branch'') create_branch
                (create_branch_args branch_name) w of
           (None, w1) \<Rightarrow> print stdout (msg_branch_created branch_name) w1
         | (Some e, w1) \<Rightarrow> (Some e, w1))
      of
        (None, w2) \<Rightarrow> (None, w2)
      | (Some e, w2) \<Rightarrow>
          (if is_Exception e then print stdout (msg_branch_exists branch_name) w2
           else (Some e, w2)))"

text \<open>
  The body of the \<open>async with\<close> block: the three lookups, the guarded branch creation,
  the push and the pull request. Each \<open>await\<close> is a call that returns before the next
  statement runs.
\<close>

definition session_body ::
  "(pystr \<Rightarrow> bool) \<Rightarrow> 'r remote \<Rightarrow> file_record list \<Rightarrow> pystr \<Rightarrow> pystr \<Rightarrow> pystr
     \<Rightarrow> 'r world \<Rightarrow> (exn + unit) \<times> 'r world"
where
  "session_body stdout rm files branch_name pr_title pr_body w =
     (case tool_map (get_tools rm (fst w)) (lit ''create_branch'') of
        Inl e \<Rightarrow> (Inl e, w)
      | Inr create_branch \<Rightarrow>
     (case tool_map (get_tools rm (fst w)) (lit ''push_files'') of
        Inl e \<Rightarrow> (Inl e, w)
      | Inr push_files_tool \<Rightarrow>
     (case tool_map (get_tools rm (fst w)) (lit ''create_pull_request'') of
        Inl e \<Rightarrow> (Inl e, w)
      | Inr create_pull_request \<Rightarrow>
     (case try_create_branch stdout create_branch branch_name w of
        (Some e, w2) \<Rightarrow> (Inl e, w2)
      | (None, w2) \<Rightarrow>
     (case invoke (lit ''push_files'') push_files_tool
             (push_files_args branch_name files pr_title) w2 of
        (Some e, w3) \<Rightarrow> (Inl e, w3)
      | (None, w3) \<Rightarrow>
     (case invoke (lit ''create_pull_request'') create_pull_request
             (create_pull_request_args pr_title pr_body branch_name) w3 of
        (Some e, w4) \<Rightarrow> (Inl e, w4)
      | (None, w4) \<Rightarrow>
     (case print stdout msg_pr_done w4 of
        (Some e, w5) \<Rightarrow> (Inl e, w5)
      | (None, w5) \<Rightarrow> (Inr (), w5))))))))"

text \<open>
  The workflow: collect, enter the client context, run the body, leave the context on
  every way out of the body, hand the body's result or exception on. The file system,
  the type tables and the standard output are the process's surroundings.
\<close>

definition rCall_PushAndPR ::
  "filesystem \<Rightarrow> (pystr \<Rightarrow> pystr option) \<Rightarrow> (pystr \<Rightarrow> bool) \<Rightarrow> 'r remote
     \<Rightarrow> pystr \<Rightarrow> pystr \<Rightarrow> pystr \<Rightarrow> pystr \<Rightarrow> pystr \<Rightarrow> pystr \<Rightarrow> 'r
     \<Rightarrow> (exn + unit) \<times> 'r world"
where
  "rCall_PushAndPR fs guess_type stdout rm my_dir_name dir_name branch_name pr_title pr_body
       git_token s =
     (case mCall_CollectFiles fs guess_type (Path dir_name) my_dir_name of
        Inl e \<Rightarrow> (Inl e, (s, []))
      | Inr files \<Rightarrow>
          (case connect rm git_token s of
             (Some e, s1) \<Rightarrow> (Inl e, (s1, []))
           | (None, s1) \<Rightarrow>
               (case session_body stdout rm files branch_name pr_title pr_body
                       (s1, [Acquire git_token]) of
                  (res, w) \<Rightarrow> (res, (release rm (fst w), snd w @ [Release])))))"

text \<open>The calls of one tool in a trace, with their arguments and outcomes, in order.\<close>

fun invocations :: "pystr \<Rightarrow> event list \<Rightarrow> (args \<times> exn option) list" where
  "invocations nm [] = []"
| "invocations nm (Invoke n a out # tr) =
     (if n = nm then (a, out) # invocations nm tr else invocations nm tr)"
| "invocations nm (ev # tr) = invocations nm tr"

section \<open>Statements about remote paths\<close>

text \<open>
  The remote path that line 51 computes for the relative parts \<open>rel\<close>, and the prefixes
  that are written the way \<open>pathlib\<close> prints them, each part followed by one slash:
  \<open>""\<close>, \<open>"alice/"\<close>, \<open>"a/b/"\<close>, \<open>"/srv/"\<close>, but not \<open>"alice"\<close>, \<open>"a//b/"\<close> or \<open>"./"\<close>.
\<close>

definition remote_path_of :: "pystr \<Rightarrow> pystr list \<Rightarrow> pystr" where
  "remote_path_of remote_prefix rel =
     str_path (truediv (PurePosixPath remote_prefix) \<lparr>anchor = [], parts = rel\<rparr>)"

definition plain_part :: "pystr \<Rightarrow> bool" where
  "plain_part c \<longleftrightarrow> c \<noteq> [] \<and> c \<noteq> [dot] \<and> slash \<notin> set c"

definition canonical_prefix :: "pystr \<Rightarrow> bool" where
  "canonical_prefix s \<longleftrightarrow>
     s = anchor (PurePosixPath s) @ concat (map (\<lambda>c. c @ [slash]) (parts (PurePosixPath s)))"

text \<open>
  Two readings of the paths in a list of records, one record for each regular file that
  the walk yields, in its order. In the first the prefix is parsed and its parts and the
  file's relative parts are joined with slashes; in the second the prefix string is
  put, as it is, before the relative parts joined with slashes.
\<close>

definition joined_paths :: "filesystem \<Rightarrow> PurePath \<Rightarrow> pystr \<Rightarrow> file_record list \<Rightarrow> bool" where
  "joined_paths fs root remote_prefix files \<longleftrightarrow>
     map (\<lambda>r. r ''path'') files
     = map (\<lambda>(p, nd). Some (anchor (PurePosixPath remote_prefix)
                @ join_sep [slash] (parts (PurePosixPath remote_prefix)
                                     @ drop (length (parts root)) (parts p))))
         (filter (\<lambda>(p, nd). is_file nd) (walked fs root))"

definition concatenated_paths ::
  "filesystem \<Rightarrow> PurePath \<Rightarrow> pystr \<Rightarrow> file_record list \<Rightarrow> bool"
where
  "concatenated_paths fs root remote_prefix files \<longleftrightarrow>
     map (\<lambda>r. r ''path'') files
     = map (\<lambda>(p, nd). Some (remote_prefix
                              @ join_sep [slash] (drop (length (parts root)) (parts p))))
         (filter (\<lambda>(p, nd). is_file nd) (walked fs root))"

text \<open>The paths of a list of records, and whether a root has an entry at all.\<close>

definition paths_of :: "file_record list \<Rightarrow> pystr option list" where
  "paths_of files = map (\<lambda>r. r ''path'') files"

definition has_entry :: "filesystem \<Rightarrow> PurePath \<Rightarrow> bool" where
  "has_entry fs p = (case fs p of Inr (Some nd) \<Rightarrow> True | _ \<Rightarrow> False)"

section \<open>Concrete inputs\<close>

text \<open>
  The scenario of the specification: under \<open>week1\<close>, \<open>a.txt\<close> holds \<open>hello\<close> and
  \<open>b.png\<close> holds the bytes \<open>FF D8 FF\<close>. A second tree has a file that cannot be read.
\<close>

definition week1_tree :: node where
  "week1_tree =
     Dir [(lit ''a.txt'', File [0x68, 0x65, 0x6C, 0x6C, 0x6F]),
          (lit ''b.png'', File [0xFF, 0xD8, 0xFF])]"

definition locked_tree :: node where
  "locked_tree = Dir [(lit ''secret.txt'', Unreadable)]"

text \<open>
  A third tree: the directory \<open>real\<close> holds \<open>f.txt\<close> with \<open>hi\<close> and \<open>b.png\<close> with the
  bytes \<open>FF D8 FF\<close>, and \<open>link\<close> is a symbolic link to \<open>real\<close>.
\<close>

definition real_entries :: "(pystr \<times> node) list" where
  "real_entries =
     [(lit ''f.txt'', File [0x68, 0x69]), (lit ''b.png'', File [0xFF, 0xD8, 0xFF])]"

definition sym_tree :: node where
  "sym_tree = Dir [(lit ''link'', DirLink real_entries), (lit ''real'', Dir real_entries)]"

text \<open>
  The file system of the concrete runs. A path with a part of more than 255 characters
  fails with \<open>ENAMETOOLONG\<close>, as on the usual file systems; \<open>long_root\<close> is such a
  path, a name of 300 letters \<open>a\<close>.
\<close>

definition long_root :: PurePath where
  "long_root = \<lparr>anchor = [], parts = [replicate 300 97]\<rparr>"

definition demo_fs :: filesystem where
  "demo_fs p =
     (if list_ex (\<lambda>c. 255 < length c) (parts p) then Inl (OSError (lit ''File name too long''))
      else if p = Path (lit ''week1'') then Inr (Some week1_tree)
      else if p = Path (lit ''empty'') then Inr (Some (Dir []))
      else if p = Path (lit ''locked'') then Inr (Some locked_tree)
      else if p = Path (lit ''sym'') then Inr (Some sym_tree)
      else if p = Path (lit ''notes.txt'') then Inr (Some (File [0x68, 0x69]))
      else Inr None)"

text \<open>A console that encodes every text, as UTF-8 does, and one that encodes ASCII only.\<close>

definition utf8_stdout :: "pystr \<Rightarrow> bool" where
  "utf8_stdout msg = True"

definition ascii_stdout :: "pystr \<Rightarrow> bool" where
  "ascii_stdout msg = list_all (\<lambda>c. c < 128) msg"

definition demo_guess_type :: "pystr \<Rightarrow> pystr option" where
  "demo_guess_type n =
     (if suffix (lit ''.txt'') n then Some (lit ''text/plain'')
      else if suffix (lit ''.png'') n then Some (lit ''image/png'')
      else None)"

text \<open>
  A remote whose state is the list of branches that exist. Creating a branch that exists
  fails, pushing to a branch that does not exist fails. The second remote refuses every
  branch creation.
\<close>

definition demo_create_branch :: "pystr list tool" where
  "demo_create_branch a s =
     (case a ''branch'' of
        Some (Str b) \<Rightarrow>
          (if b \<in> set s then (Some (Exception (lit ''Reference already exists'')), s)
           else (None, b # s))
      | _ \<Rightarrow> (Some (Exception (lit ''missing argument'')), s))"

definition demo_push_files :: "pystr list tool" where
  "demo_push_files a s =
     (case a ''branch'' of
        Some (Str b) \<Rightarrow>
          (if b \<in> set s then (None, s) else (Some (Exception (lit ''Branch not found'')), s))
      | _ \<Rightarrow> (Some (Exception (lit ''missing argument'')), s))"

definition demo_create_pull_request :: "pystr list tool" where
  "demo_create_pull_request a s = (None, s)"

definition refuse_create_branch :: "pystr list tool" where
  "refuse_create_branch a s = (Some (Exception (lit ''Resource not accessible'')), s)"

definition demo_remote :: "pystr list remote" where
  "demo_remote =
     \<lparr>connect = (\<lambda>token s. (None, s)),
      get_tools = (\<lambda>s. [(lit ''create_branch'', demo_create_branch),
                        (lit ''push_files'', demo_push_files),
                        (lit ''create_pull_request'', demo_create_pull_request)]),
      release = (\<lambda>s. s)\<rparr>"

definition readonly_remote :: "pystr list remote" where
  "readonly_remote =
     \<lparr>connect = (\<lambda>token s. (None, s)),
      get_tools = (\<lambda>s. [(lit ''create_branch'', refuse_create_branch),
                        (lit ''push_files'', demo_push_files),
                        (lit ''create_pull_request'', demo_create_pull_request)]),
      release = (\<lambda>s. s)\<rparr>"

text \<open>The request of the concrete runs, the records it collects and the traces it leaves.\<close>

definition demo_branch :: pystr where
  "demo_branch = lit ''feat/alice-week1''"

definition demo_title :: pystr where
  "demo_title = lit ''Week 1''"

definition demo_body :: pystr where
  "demo_body = lit ''Homework of week 1''"

definition demo_token :: pystr where
  "demo_token = lit ''ghp_example''"

definition demo_files :: "file_record list" where
  "demo_files =
     [[''path'' \<mapsto> lit ''alice/a.txt'', ''content'' \<mapsto> lit ''hello''],
      [''path'' \<mapsto> lit ''alice/b.png'', ''content'' \<mapsto> lit ''/9j/'',
       ''encoding'' \<mapsto> lit ''base64'']]"

definition fresh_trace :: "event list" where
  "fresh_trace =
     [Acquire demo_token,
      Invoke (lit ''create_branch'') (create_branch_args demo_branch) None,
      Print (msg_branch_created demo_branch),
      Invoke (lit ''push_files'') (push_files_args demo_branch demo_files demo_title) None,
      Invoke (lit ''create_pull_request'')
        (create_pull_request_args demo_title demo_body demo_branch) None,
      Print msg_pr_done,
      Release]"

definition branch_exists_trace :: "event list" where
  "branch_exists_trace =
     [Acquire demo_token,
      Invoke (lit ''create_branch'') (create_branch_args demo_branch)
        (Some (Exception (lit ''Reference already exists''))),
      Print (msg_branch_exists demo_branch),
      Invoke (lit ''push_files'') (push_files_args demo_branch demo_files demo_title) None,
      Invoke (lit ''create_pull_request'')
        (create_pull_request_args demo_title demo_body demo_branch) None,
      Print msg_pr_done,
      Release]"

definition ascii_trace :: "event list" where
  "ascii_trace =
     [Acquire demo_token,
      Invoke (lit ''create_branch'') (create_branch_args demo_branch)
        (Some (Exception (lit ''Resource not accessible''))),
      Release]"

definition sym_files :: "file_record list" where
  "sym_files =
     [[''path'' \<mapsto> lit ''pre/real/f.txt'', ''content'' \<mapsto> lit ''hi''],
      [''path'' \<mapsto> lit ''pre/real/b.png'', ''content'' \<mapsto> lit ''/9j/'',
       ''encoding'' \<mapsto> lit ''base64'']]"

definition readonly_trace :: "event list" where
  "readonly_trace =
     [Acquire demo_token,
      Invoke (lit ''create_branch'') (create_branch_args demo_branch)
        (Some (Exception (lit ''Resource not accessible''))),
      Print (msg_branch_exists demo_branch),
      Invoke (lit ''push_files'') (push_files_args demo_branch demo_files demo_title)
        (Some (Exception (lit ''Branch not found''))),
      Release]"

section \<open>Strings and paths of the concrete inputs\<close>

lemma lit_inject [simp]: "lit a = lit b \<longleftrightarrow> a = b"
  by (simp add: lit_def inj_on_def)

lemma lit_eq_Nil: "lit s = [] \<longleftrightarrow> s = []"
  by (simp add: lit_def)

lemma lit_append: "lit a @ lit b = lit (a @ b)"
  by (simp add: lit_def)

lemma slash_lit: "[slash] = lit ''/''"
  by (simp add: slash_def lit_def)

lemma Path_lit:
  "Path (lit ''week1'') = \<lparr>anchor = [], parts = [lit ''week1'']\<rparr>"
  "Path (lit ''empty'') = \<lparr>anchor = [], parts = [lit ''empty'']\<rparr>"
  "Path (lit ''locked'') = \<lparr>anchor = [], parts = [lit ''locked'']\<rparr>"
  "Path (lit ''notes.txt'') = \<lparr>anchor = [], parts = [lit ''notes.txt'']\<rparr>"
  "Path (lit ''missing'') = \<lparr>anchor = [], parts = [lit ''missing'']\<rparr>"
  "Path (lit ''sym'') = \<lparr>anchor = [], parts = [lit ''sym'']\<rparr>"
  by (simp_all add: Path_def PurePosixPath_def splitroot_def lit_def slash_def dot_def)

lemma PurePosixPath_alice:
  "PurePosixPath (lit ''alice/'') = \<lparr>anchor = [], parts = [lit ''alice'']\<rparr>"
  "PurePosixPath (lit ''alice'') = \<lparr>anchor = [], parts = [lit ''alice'']\<rparr>"
  "PurePosixPath (lit ''pre/'') = \<lparr>anchor = [], parts = [lit ''pre'']\<rparr>"
  by (simp_all add: PurePosixPath_def splitroot_def lit_def slash_def dot_def)

lemma length_lit: "length (lit s) = length s"
  by (simp add: lit_def)

lemma demo_fs_simps:
  "demo_fs (Path (lit ''week1'')) = Inr (Some week1_tree)"
  "demo_fs (Path (lit ''empty'')) = Inr (Some (Dir []))"
  "demo_fs (Path (lit ''locked'')) = Inr (Some locked_tree)"
  "demo_fs (Path (lit ''notes.txt'')) = Inr (Some (File [0x68, 0x69]))"
  "demo_fs (Path (lit ''missing'')) = Inr None"
  "demo_fs (Path (lit ''sym'')) = Inr (Some sym_tree)"
  by (simp_all add: demo_fs_def Path_lit length_lit)

lemma demo_fs_long: "demo_fs long_root = Inl (OSError (lit ''File name too long''))"
  by (simp add: demo_fs_def long_root_def)

section \<open>The base64 round trip\<close>

lemma Suc_Suc_diff_2:
  "\<not> n < 2 \<Longrightarrow> Suc (Suc (n - 2)) = n"
  "2 \<le> n \<Longrightarrow> Suc (Suc (n - 2)) = n"
  "\<not> n < k \<Longrightarrow> k + (n - k) = n"
  "k \<le> n \<Longrightarrow> k + (n - k) = (n::nat)"
  by auto

lemma byte_no_high_bit: "\<not> bit (b::byte) (8 + n)"
  by (auto dest: bit_imp_le_length)

text \<open>The four sextets of three bytes hold the bits of the three bytes.\<close>

lemma sextet_a:
  "push_bit 2 (take_bit 6 (drop_bit 2 a))
     OR drop_bit 4 (take_bit 6 (push_bit 4 a OR drop_bit 4 b)) = (a::byte)"
  by (rule bit_word_eqI) (auto simp: bit_simps Suc_Suc_diff_2 byte_no_high_bit)

lemma sextet_a_last:
  "push_bit 2 (take_bit 6 (drop_bit 2 a)) OR drop_bit 4 (take_bit 6 (push_bit 4 a)) = (a::byte)"
  by (rule bit_word_eqI) (auto simp: bit_simps Suc_Suc_diff_2 byte_no_high_bit)

lemma sextet_b:
  "push_bit 4 (take_bit 6 (push_bit 4 a OR drop_bit 4 b))
     OR drop_bit 2 (take_bit 6 (push_bit 2 b OR drop_bit 6 c)) = (b::byte)"
  by (rule bit_word_eqI) (auto simp: bit_simps Suc_Suc_diff_2 byte_no_high_bit)

lemma sextet_b_last:
  "push_bit 4 (take_bit 6 (push_bit 4 a OR drop_bit 4 b))
     OR drop_bit 2 (take_bit 6 (push_bit 2 b)) = (b::byte)"
  by (rule bit_word_eqI) (auto simp: bit_simps Suc_Suc_diff_2 byte_no_high_bit)

lemma sextet_c:
  "push_bit 6 (take_bit 6 (push_bit 2 b OR drop_bit 6 c)) OR take_bit 6 c = (c::byte)"
  by (rule bit_word_eqI) (auto simp: bit_simps Suc_Suc_diff_2 byte_no_high_bit)

lemma unat_sextet: "unat (take_bit 6 (x::byte)) < 64"
  using take_bit_nat_less_exp [of 6 "unat x"] by (simp add: unsigned_take_bit_eq)

text \<open>The alphabet: 64 different ASCII characters, none of them the padding.\<close>

lemma distinct_b64_alphabet: "distinct b64_alphabet"
  by (simp add: b64_alphabet_def)

lemma length_b64_alphabet: "length b64_alphabet = 64"
  by (simp add: b64_alphabet_def)

lemma b64_alphabet_ascii: "\<forall>c \<in> set b64_alphabet. c < 0x80 \<and> c \<noteq> 61"
  by (simp add: b64_alphabet_def)

lemma b64char_in_alphabet: "b64char s \<in> set b64_alphabet"
  unfolding b64char_def by (rule nth_mem) (simp add: length_b64_alphabet unat_sextet)

lemma b64char_ascii: "b64char s < 0x80"
  using b64char_in_alphabet b64_alphabet_ascii by blast

lemma b64char_not_pad: "unat (b64char s) \<noteq> 61"
proof
  assume "unat (b64char s) = 61"
  then have "of_nat (unat (b64char s)) = (of_nat 61 :: byte)" by simp
  then have "b64char s = 61" by simp
  with b64char_in_alphabet b64_alphabet_ascii show False by blast
qed

lemma unat_b64_pad: "unat b64_pad = 61"
  by (simp add: b64_pad_def)

lemma index_of_nth: "distinct xs \<Longrightarrow> i < length xs \<Longrightarrow> index_of (xs ! i) xs = Some i"
proof (induction xs arbitrary: i)
  case Nil
  then show ?case by simp
next
  case (Cons x xs)
  show ?case
  proof (cases i)
    case 0
    then show ?thesis by simp
  next
    case (Suc j)
    with Cons.prems have "xs ! j \<noteq> x" and "j < length xs" and "distinct xs" by auto
    with Cons.IH [of j] Suc show ?thesis by simp
  qed
qed

lemma b64val_b64char: "b64val (unat (b64char s)) = Some (take_bit 6 s)"
proof -
  have "unat (b64char s) < 256"
    using unsigned_less [of "b64char s"] by simp
  moreover have "index_of (b64char s) b64_alphabet = Some (unat (take_bit 6 s))"
    unfolding b64char_def
    by (rule index_of_nth [OF distinct_b64_alphabet]) (simp add: length_b64_alphabet unat_sextet)
  ultimately show ?thesis by (simp add: b64val_def)
qed

text \<open>The encoder's output is ASCII, so its \<open>.decode()\<close> never raises.\<close>

lemma b64encode_ascii: "\<forall>c \<in> set (b64encode raw). c < 0x80"
  by (induction raw rule: b64encode.induct) (simp_all add: b64char_ascii b64_pad_def)

lemma utf8_decode_ascii: "\<forall>c \<in> set bs. c < 0x80 \<Longrightarrow> utf8_decode bs = Some (map unat bs)"
  by (induction bs) simp_all

lemma b64encode_eq_Nil: "b64encode raw = [] \<longleftrightarrow> raw = []"
  by (cases raw rule: b64encode.cases) simp_all

lemma b64_quad_b64char:
  "b64_quad (unat (b64char s0)) (unat (b64char s1)) (unat (b64char s2)) (unat (b64char s3))
   = Some [push_bit 2 (take_bit 6 s0) OR drop_bit 4 (take_bit 6 s1),
           push_bit 4 (take_bit 6 s1) OR drop_bit 2 (take_bit 6 s2),
           push_bit 6 (take_bit 6 s2) OR take_bit 6 s3]"
  by (simp add: b64_quad_def b64val_b64char)

lemma b64_quad_encode:
  "b64_quad (unat (b64char (drop_bit 2 a))) (unat (b64char (push_bit 4 a OR drop_bit 4 b)))
     (unat (b64char (push_bit 2 b OR drop_bit 6 c))) (unat (b64char c)) = Some [a, b, c]"
  by (simp only: b64_quad_b64char sextet_a sextet_b sextet_c)

lemma b64_last_encode3:
  "b64_last (unat (b64char (drop_bit 2 a))) (unat (b64char (push_bit 4 a OR drop_bit 4 b)))
     (unat (b64char (push_bit 2 b OR drop_bit 6 c))) (unat (b64char c)) = Some [a, b, c]"
  by (simp only: b64_last_def b64char_not_pad not_False_eq_True if_True b64_quad_encode)

lemma b64_last_encode2:
  "b64_last (unat (b64char (drop_bit 2 a))) (unat (b64char (push_bit 4 a OR drop_bit 4 b)))
     (unat (b64char (push_bit 2 b))) (unat b64_pad) = Some [a, b]"
proof -
  have "b64_last (unat (b64char (drop_bit 2 a))) (unat (b64char (push_bit 4 a OR drop_bit 4 b)))
     (unat (b64char (push_bit 2 b))) (unat b64_pad)
     = Some [push_bit 2 (take_bit 6 (drop_bit 2 a))
               OR drop_bit 4 (take_bit 6 (push_bit 4 a OR drop_bit 4 b)),
             push_bit 4 (take_bit 6 (push_bit 4 a OR drop_bit 4 b))
               OR drop_bit 2 (take_bit 6 (push_bit 2 b))]"
    by (simp add: b64_last_def unat_b64_pad b64char_not_pad b64val_b64char)
  then show ?thesis by (simp only: sextet_a sextet_b_last)
qed

lemma b64_last_encode1:
  "b64_last (unat (b64char (drop_bit 2 a))) (unat (b64char (push_bit 4 a)))
     (unat b64_pad) (unat b64_pad) = Some [a]"
proof -
  have "b64_last (unat (b64char (drop_bit 2 a))) (unat (b64char (push_bit 4 a)))
     (unat b64_pad) (unat b64_pad)
     = Some [push_bit 2 (take_bit 6 (drop_bit 2 a)) OR drop_bit 4 (take_bit 6 (push_bit 4 a))]"
    by (simp add: b64_last_def unat_b64_pad b64val_b64char)
  then show ?thesis by (simp only: sextet_a_last)
qed

lemma b64decode_b64encode: "b64decode (map unat (b64encode raw)) = Some raw"
proof (induction raw rule: b64encode.induct)
  case (1 a b c r)
  show ?case
  proof (cases "r = []")
    case True
    then show ?thesis by (simp add: b64_last_encode3)
  next
    case False
    with 1 show ?thesis by (simp add: b64encode_eq_Nil b64_quad_encode)
  qed
next
  case (2 a b)
  show ?case using b64_last_encode2 [of a b] by simp
next
  case (3 a)
  show ?case using b64_last_encode1 [of a] by simp
next
  case 4
  show ?case by simp
qed

section \<open>The walk reaches every file behind real directories\<close>

lemma below_Nil [simp]: "below q [] = q"
  by (simp add: below_def)

lemma below_below [simp]: "below (below q xs) ys = below q (xs @ ys)"
  by (simp add: below_def)

lemma child_below: "child q n = below q [n]"
  by (simp add: child_def below_def)

lemma walk_subdirs_mono:
  "(n, c) \<in> set es \<Longrightarrow> set (walk (child q n) c) \<subseteq> set (walk_subdirs q es)"
  by (induction es) auto

lemma walk_complete:
  "reach t rel = Some nd \<Longrightarrow> rel \<noteq> [] \<Longrightarrow> (below q rel, nd) \<in> set (walk q t)"
proof (induction rel arbitrary: t q)
  case Nil
  then show ?case by simp
next
  case (Cons n ns)
  from Cons.prems(1) obtain es c where t: "t = Dir es" and c: "map_of es n = Some c"
    and l: "reach c ns = Some nd"
    by (cases t) (auto split: option.splits)
  from c have mem: "(n, c) \<in> set es" by (rule map_of_SomeD)
  show ?case
  proof (cases "ns = []")
    case True
    with l have "nd = c" by simp
    with mem True t show ?thesis by (force simp: child_below)
  next
    case False
    from Cons.IH [OF l False, of "child q n"]
    have "(below q (n # ns), nd) \<in> set (walk (child q n) c)" by (simp add: child_below)
    with walk_subdirs_mono [OF mem, of q] t show ?thesis by auto
  qed
qed

text \<open>Every path that the walk yields lies strictly below the path it started from.\<close>

lemma walk_below:
  "(p, nd) \<in> set (walk q t) \<Longrightarrow> \<exists>rel. rel \<noteq> [] \<and> p = below q rel"
  "(p, nd) \<in> set (walk_subdirs q es) \<Longrightarrow> \<exists>rel. rel \<noteq> [] \<and> p = below q rel"
proof (induction q t and q es rule: walk_walk_subdirs.induct)
  case (1 q es)
  from "1.prems" consider n c where "(n, c) \<in> set es" "p = child q n"
    | "(p, nd) \<in> set (walk_subdirs q es)" by auto
  then show ?case
  proof cases
    case 1
    then have "p = below q [n]" by (simp add: child_below)
    then show ?thesis by blast
  next
    case 2
    then show ?thesis by (rule "1.IH")
  qed
next
  case (7 q n c es)
  from "7.prems" consider "(p, nd) \<in> set (walk (child q n) c)"
    | "(p, nd) \<in> set (walk_subdirs q es)" by auto
  then show ?case
  proof cases
    case 1
    from "7.IH"(1) [OF 1] obtain rel where "rel \<noteq> []" "p = below (child q n) rel" by blast
    then have "p = below q (n # rel)" by (simp add: child_below)
    then show ?thesis by blast
  next
    case 2
    then show ?thesis by (rule "7.IH"(2))
  qed
qed simp_all

lemma rglob_below:
  "rglob fs root = Inr ents \<Longrightarrow> (p, nd) \<in> set ents \<Longrightarrow> \<exists>rel. rel \<noteq> [] \<and> p = below root rel"
  by (auto simp: rglob_def split: sum.splits option.splits dest: walk_below(1))

lemma rglob_reach:
  "fs root = Inr (Some tree) \<Longrightarrow> reach (resolve tree) rel = Some nd \<Longrightarrow> rel \<noteq> [] \<Longrightarrow>
   \<exists>ents. rglob fs root = Inr ents \<and> (below root rel, nd) \<in> set ents"
  by (simp add: rglob_def walk_complete)

lemma mCall_CollectFiles_Inr:
  "mCall_CollectFiles fs gt root pre = Inr files \<Longrightarrow>
   \<exists>ents. rglob fs root = Inr ents \<and> walked fs root = ents
          \<and> collect_loop gt root pre ents [] = Inr files"
  by (auto simp: mCall_CollectFiles_def walked_def split: sum.splits)

lemma relative_to_below:
  "relative_to (below q rel) q = Inr \<lparr>anchor = [], parts = rel\<rparr>"
  by (simp add: relative_to_def below_def)

lemma name_below: "rel \<noteq> [] \<Longrightarrow> name (below q rel) = last rel"
  by (simp add: name_def below_def)

lemma parts_below: "drop (length (parts q)) (parts (below q rel)) = rel"
  by (simp add: below_def)

section \<open>What the loop appends\<close>

lemma collect_loop_result:
  "collect_loop gt root pre ents acc = Inr files \<Longrightarrow>
   map Inr files
   = map Inr acc
     @ map (\<lambda>(p, nd). collect_one gt root pre p nd) (filter (\<lambda>(p, nd). is_file nd) ents)"
proof (induction ents arbitrary: acc)
  case Nil
  then show ?case by simp
next
  case (Cons e ents)
  obtain p nd where e: "e = (p, nd)" by (cases e)
  show ?case
  proof (cases "is_file nd")
    case False
    with Cons e show ?thesis by simp
  next
    case True
    with Cons.prems e obtain r where r: "collect_one gt root pre p nd = Inr r"
      and rest: "collect_loop gt root pre ents (acc @ [r]) = Inr files"
      by (auto split: sum.splits)
    from Cons.IH [OF rest] r True e show ?thesis by simp
  qed
qed

lemma collect_loop_emits:
  assumes "collect_loop gt root pre ents acc = Inr files"
    and "(p, nd) \<in> set ents" and "is_file nd"
  shows "\<exists>r. collect_one gt root pre p nd = Inr r \<and> r \<in> set files"
proof -
  from assms(2,3) have "collect_one gt root pre p nd
      \<in> set (map (\<lambda>(p, nd). collect_one gt root pre p nd)
                (filter (\<lambda>(p, nd). is_file nd) ents))"
    by force
  then have "collect_one gt root pre p nd \<in> set (map Inr files)"
    using collect_loop_result [OF assms(1)] by simp
  then show ?thesis by auto
qed

lemma binary_record_eq:
  "binary_record remote_path raw =
     Inr [''path'' \<mapsto> remote_path, ''content'' \<mapsto> map unat (b64encode raw),
          ''encoding'' \<mapsto> lit ''base64'']"
  by (simp add: binary_record_def utf8_decode_ascii [OF b64encode_ascii])

lemma collect_one_File:
  "rel \<noteq> [] \<Longrightarrow> collect_one gt root pre (below root rel) (File raw) =
     (case text_record (gt (last rel)) (remote_path_of pre rel) raw of
        Some r \<Rightarrow> Inr r
      | None \<Rightarrow>
          Inr [''path'' \<mapsto> remote_path_of pre rel, ''content'' \<mapsto> map unat (b64encode raw),
               ''encoding'' \<mapsto> lit ''base64''])"
  by (simp add: collect_one_def Let_def relative_to_below name_below binary_record_eq
        remote_path_of_def split: option.split)

lemma emitted_for_file:
  assumes "mCall_CollectFiles fs gt root pre = Inr files"
    and "fs root = Inr (Some tree)" and "reach (resolve tree) rel = Some (File raw)"
    and "rel \<noteq> []"
  shows "\<exists>r. collect_one gt root pre (below root rel) (File raw) = Inr r \<and> r \<in> set files"
proof -
  from rglob_reach [of fs root tree rel "File raw"] assms(2-4) obtain ents where
    ents: "rglob fs root = Inr ents" and mem: "(below root rel, File raw) \<in> set ents"
    by blast
  from assms(1) ents have "collect_loop gt root pre ents [] = Inr files"
    by (simp add: mCall_CollectFiles_def)
  from this mem show ?thesis by (rule collect_loop_emits) simp
qed

section \<open>The concrete trees, collected\<close>

lemma demo_guess_type_simps:
  "demo_guess_type (lit ''a.txt'') = Some (lit ''text/plain'')"
  "demo_guess_type (lit ''b.png'') = Some (lit ''image/png'')"
  "demo_guess_type (lit ''f.txt'') = Some (lit ''text/plain'')"
  by (simp_all add: demo_guess_type_def lit_def suffix_def)

lemma text_prefix:
  "prefix (lit ''text/'') (lit ''text/plain'')"
  "\<not> prefix (lit ''text/'') (lit ''image/png'')"
  by (simp_all add: lit_def)

lemma decode_hello: "utf8_decode [0x68, 0x65, 0x6C, 0x6C, 0x6F] = Some (lit ''hello'')"
  by (simp add: lit_def)

lemma decode_hi: "utf8_decode [0x68, 0x69] = Some (lit ''hi'')"
  by (simp add: lit_def)

lemma decode_jpeg: "utf8_decode [0xFF, 0xD8, 0xFF] = None"
  by simp

lemma encode_jpeg: "map unat (b64encode [0xFF, 0xD8, 0xFF]) = lit ''/9j/''"
  by (simp add: b64char_def b64_alphabet_def lit_def)

lemmas demo_eval =
  lit_eq_Nil text_prefix mCall_CollectFiles_def rglob_def demo_fs_def week1_tree_def
  child_def Path_lit length_lit collect_one_def relative_to_def name_def Let_def
  text_record_def binary_record_eq is_text_mime_def demo_guess_type_simps decode_hello
  decode_hi decode_jpeg encode_jpeg PurePosixPath_alice truediv_def str_path_def slash_lit
  lit_append

lemma demo_collect:
  "mCall_CollectFiles demo_fs demo_guess_type (Path (lit ''week1'')) (lit ''alice/'')
   = Inr demo_files"
  by (simp add: demo_eval demo_files_def del: b64encode.simps utf8_decode.simps)

lemma demo_collect_no_slash:
  "mCall_CollectFiles demo_fs demo_guess_type (Path (lit ''week1'')) (lit ''alice'')
   = Inr demo_files"
  by (simp add: demo_eval demo_files_def del: b64encode.simps utf8_decode.simps)

lemma demo_entries:
  "filter (\<lambda>(p, nd). is_file nd) (walked demo_fs (Path (lit ''week1'')))
   = [(\<lparr>anchor = [], parts = [lit ''week1'', lit ''a.txt'']\<rparr>,
       File [0x68, 0x65, 0x6C, 0x6C, 0x6F]),
      (\<lparr>anchor = [], parts = [lit ''week1'', lit ''b.png'']\<rparr>, File [0xFF, 0xD8, 0xFF])]"
  by (simp add: walked_def rglob_def demo_fs_def Path_lit length_lit week1_tree_def child_def)

lemma collect_locked:
  "mCall_CollectFiles demo_fs demo_guess_type (Path (lit ''locked'')) (lit ''alice/'')
   = Inl PermissionError"
  by (simp add: mCall_CollectFiles_def rglob_def demo_fs_def locked_tree_def Path_lit
        length_lit child_def collect_one_def relative_to_def)

lemma collect_sym:
  "mCall_CollectFiles demo_fs demo_guess_type (Path (lit ''sym'')) (lit ''pre/'')
   = Inr sym_files"
  by (simp add: demo_eval sym_tree_def real_entries_def sym_files_def
        del: b64encode.simps utf8_decode.simps)

lemma lookup_week1:
  "reach (resolve week1_tree) [lit ''a.txt''] = Some (File [0x68, 0x65, 0x6C, 0x6C, 0x6F])"
  "reach (resolve week1_tree) [lit ''b.png''] = Some (File [0xFF, 0xD8, 0xFF])"
  by (simp_all add: week1_tree_def)

lemma lookup_sym:
  "lookup sym_tree [lit ''link'', lit ''f.txt''] = Some (File [0x68, 0x69])"
  "lookup sym_tree [lit ''link'', lit ''b.png''] = Some (File [0xFF, 0xD8, 0xFF])"
  by (simp_all add: sym_tree_def real_entries_def)

lemma remote_path_alice:
  "str_path (truediv (PurePosixPath (lit ''alice/'')) \<lparr>anchor = [], parts = [lit ''a.txt'']\<rparr>)
     = lit ''alice/a.txt''"
  "str_path (truediv (PurePosixPath (lit ''alice/'')) \<lparr>anchor = [], parts = [lit ''b.png'']\<rparr>)
     = lit ''alice/b.png''"
  by (simp_all add: PurePosixPath_alice truediv_def str_path_def slash_lit lit_append)

lemma remote_path_link:
  "str_path (truediv (PurePosixPath (lit ''pre/''))
      \<lparr>anchor = [], parts = [lit ''link'', lit ''f.txt'']\<rparr>) = lit ''pre/link/f.txt''"
  "str_path (truediv (PurePosixPath (lit ''pre/''))
      \<lparr>anchor = [], parts = [lit ''link'', lit ''b.png'']\<rparr>) = lit ''pre/link/b.png''"
  by (simp_all add: PurePosixPath_alice truediv_def str_path_def slash_lit lit_append)

lemma sym_paths:
  "paths_of sym_files = [Some (lit ''pre/real/f.txt''), Some (lit ''pre/real/b.png'')]"
  by (simp add: paths_of_def sym_files_def)

section \<open>Text files and binary files\<close>

text \<open>
  What the loop does with a regular file that the walk reaches, one behind real
  directories only. Let the collector return the list \<open>files\<close>. A file whose name has a
  guessed type that starts with \<open>text/\<close> and whose bytes decode as UTF-8 to \<open>txt\<close> has a
  record with its remote path, with \<open>txt\<close> as its content and with no \<open>encoding\<close> field.
\<close>

lemma text_record_emitted:
  assumes "mCall_CollectFiles fs guess_type root remote_prefix = Inr files"
    and "fs root = Inr (Some tree)" and "reach (resolve tree) rel = Some (File raw)"
    and "rel \<noteq> []"
    and "guess_type (last rel) = Some mime" and "prefix (lit ''text/'') mime"
    and "utf8_decode raw = Some txt"
  shows "\<exists>r. r \<in> set files
      \<and> r ''path'' = Some (str_path (truediv (PurePosixPath remote_prefix)
                                        \<lparr>anchor = [], parts = rel\<rparr>))
      \<and> r ''content'' = Some txt \<and> ''encoding'' \<notin> dom r"
proof -
  let ?r = "[''path'' \<mapsto> remote_path_of remote_prefix rel, ''content'' \<mapsto> txt]"
  from assms(6) have "mime \<noteq> []" by (auto simp: lit_def)
  with assms(5,6) have "is_text_mime (guess_type (last rel))" by (simp add: is_text_mime_def)
  with assms(4,7)
  have "collect_one guess_type root remote_prefix (below root rel) (File raw) = Inr ?r"
    by (simp add: collect_one_File text_record_def)
  with emitted_for_file [OF assms(1-4)] have "?r \<in> set files" by auto
  then show ?thesis
    by (intro exI [of _ ?r]) (simp add: remote_path_of_def)
qed

text \<open>
  A file whose name has no guessed type, or a guessed type that does not start with
  \<open>text/\<close>, or whose bytes are not valid UTF-8, has a record with its remote path and
  with \<open>encoding\<close> \<open>base64\<close> whose content decodes, as base64, to exactly the bytes of
  the file.
\<close>

lemma binary_record_emitted:
  assumes "mCall_CollectFiles fs guess_type root remote_prefix = Inr files"
    and "fs root = Inr (Some tree)" and "reach (resolve tree) rel = Some (File raw)"
    and "rel \<noteq> []"
    and "guess_type (last rel) = None
         \<or> (\<exists>mime. guess_type (last rel) = Some mime \<and> \<not> prefix (lit ''text/'') mime)
         \<or> utf8_decode raw = None"
  shows "\<exists>r c. r \<in> set files
      \<and> r ''path'' = Some (str_path (truediv (PurePosixPath remote_prefix)
                                        \<lparr>anchor = [], parts = rel\<rparr>))
      \<and> r ''encoding'' = Some (lit ''base64'')
      \<and> r ''content'' = Some c \<and> b64decode c = Some raw"
proof -
  let ?r = "[''path'' \<mapsto> remote_path_of remote_prefix rel,
             ''content'' \<mapsto> map unat (b64encode raw), ''encoding'' \<mapsto> lit ''base64'']"
  from assms(5)
  have "text_record (guess_type (last rel)) (remote_path_of remote_prefix rel) raw = None"
    by (auto simp: text_record_def is_text_mime_def)
  with assms(4)
  have "collect_one guess_type root remote_prefix (below root rel) (File raw) = Inr ?r"
    by (simp add: collect_one_File)
  with emitted_for_file [OF assms(1-4)] have "?r \<in> set files" by auto
  then show ?thesis
    by (intro exI [of _ ?r] exI [of _ "map unat (b64encode raw)"])
       (simp add: remote_path_of_def b64decode_b64encode)
qed

text \<open>
  The collector returns a list whenever the root's \<open>stat\<close> does not raise and no
  regular file that the walk yields is unreadable.
\<close>

lemma collect_loop_returns:
  assumes "\<forall>(p, nd) \<in> set ents. nd \<noteq> Unreadable \<and> (\<exists>rel. rel \<noteq> [] \<and> p = below root rel)"
  shows "\<exists>files. collect_loop gt root pre ents acc = Inr files"
  using assms
proof (induction ents arbitrary: acc)
  case Nil
  then show ?case by simp
next
  case (Cons e ents)
  obtain p nd where e: "e = (p, nd)" by (cases e)
  from Cons.prems e obtain rel where rel: "rel \<noteq> []" "p = below root rel" and nd: "nd \<noteq> Unreadable"
    by auto
  from Cons.prems
  have tl: "\<forall>(p, nd) \<in> set ents. nd \<noteq> Unreadable \<and> (\<exists>rel. rel \<noteq> [] \<and> p = below root rel)"
    by simp
  show ?case
  proof (cases "is_file nd")
    case False
    with Cons.IH [OF tl, of acc] e show ?thesis by simp
  next
    case True
    with nd obtain raw where "nd = File raw" by (cases nd) simp_all
    with rel have "\<exists>r. collect_one gt root pre p nd = Inr r"
      by (simp add: collect_one_File split: option.split)
    then obtain r where "collect_one gt root pre p nd = Inr r" ..
    with Cons.IH [OF tl, of "acc @ [r]"] True e show ?thesis by simp
  qed
qed

lemma collector_returns:
  assumes "rglob fs root = Inr ents" and "\<forall>(p, nd) \<in> set ents. nd \<noteq> Unreadable"
  shows "\<exists>files. mCall_CollectFiles fs gt root pre = Inr files"
proof -
  from assms have "\<forall>(p, nd) \<in> set ents. nd \<noteq> Unreadable
      \<and> (\<exists>rel. rel \<noteq> [] \<and> p = below root rel)"
    using rglob_below [OF assms(1)] by fastforce
  from collect_loop_returns [OF this] assms(1) show ?thesis
    by (simp add: mCall_CollectFiles_def)
qed

text \<open>
  C1. The claim is of every regular file under the root. In the tree \<open>sym\<close> the path
  \<open>link/f.txt\<close> leads to a regular file, through the link to the directory \<open>real\<close>; its
  name has the guessed type \<open>text/plain\<close> and its bytes decode to \<open>hi\<close>. The collector
  returns two records, \<open>pre/real/f.txt\<close> and \<open>pre/real/b.png\<close>, and no record with the
  path \<open>pre/link/f.txt\<close> that line 51 gives that file: the walk lists the link and does
  not go into it.
\<close>

theorem C1_symlinked_directory:
  "demo_fs (Path (lit ''sym'')) = Inr (Some sym_tree)
   \<and> lookup sym_tree [lit ''link'', lit ''f.txt''] = Some (File [0x68, 0x69])
   \<and> demo_guess_type (last [lit ''link'', lit ''f.txt'']) = Some (lit ''text/plain'')
   \<and> prefix (lit ''text/'') (lit ''text/plain'')
   \<and> utf8_decode [0x68, 0x69] = Some (lit ''hi'')
   \<and> str_path (truediv (PurePosixPath (lit ''pre/''))
        \<lparr>anchor = [], parts = [lit ''link'', lit ''f.txt'']\<rparr>) = lit ''pre/link/f.txt''
   \<and> mCall_CollectFiles demo_fs demo_guess_type (Path (lit ''sym'')) (lit ''pre/'')
       = Inr sym_files
   \<and> paths_of sym_files = [Some (lit ''pre/real/f.txt''), Some (lit ''pre/real/b.png'')]
   \<and> Some (lit ''pre/link/f.txt'') \<notin> set (paths_of sym_files)"
  by (simp add: demo_fs_simps lookup_sym demo_guess_type_simps text_prefix decode_hi
        remote_path_link collect_sym sym_paths del: utf8_decode.simps)

text \<open>
  C2. The claim is of every regular file under the root. In the tree \<open>sym\<close> the path
  \<open>link/b.png\<close> leads to a regular file, through the link to the directory \<open>real\<close>; the
  guessed type of its name is not a text type and its bytes are not valid UTF-8. The
  collector returns two records, \<open>pre/real/f.txt\<close> and \<open>pre/real/b.png\<close>, and no record
  with the path \<open>pre/link/b.png\<close> that line 51 gives that file.
\<close>

theorem C2_symlinked_directory:
  "demo_fs (Path (lit ''sym'')) = Inr (Some sym_tree)
   \<and> lookup sym_tree [lit ''link'', lit ''b.png''] = Some (File [0xFF, 0xD8, 0xFF])
   \<and> demo_guess_type (last [lit ''link'', lit ''b.png'']) = Some (lit ''image/png'')
   \<and> \<not> prefix (lit ''text/'') (lit ''image/png'')
   \<and> utf8_decode [0xFF, 0xD8, 0xFF] = None
   \<and> str_path (truediv (PurePosixPath (lit ''pre/''))
        \<lparr>anchor = [], parts = [lit ''link'', lit ''b.png'']\<rparr>) = lit ''pre/link/b.png''
   \<and> mCall_CollectFiles demo_fs demo_guess_type (Path (lit ''sym'')) (lit ''pre/'')
       = Inr sym_files
   \<and> paths_of sym_files = [Some (lit ''pre/real/f.txt''), Some (lit ''pre/real/b.png'')]
   \<and> Some (lit ''pre/link/b.png'') \<notin> set (paths_of sym_files)"
  by (simp add: demo_fs_simps lookup_sym demo_guess_type_simps text_prefix decode_jpeg
        remote_path_link collect_sym sym_paths del: utf8_decode.simps)

section \<open>Remote paths\<close>

lemma join_sep_Cons: "ys \<noteq> [] \<Longrightarrow> join_sep s (x # ys) = x @ s @ join_sep s ys"
  by (cases ys) simp_all

lemma join_sep_append:
  "rel \<noteq> [] \<Longrightarrow> join_sep s (ps @ rel) = concat (map (\<lambda>c. c @ s) ps) @ join_sep s rel"
  by (induction ps) (simp_all add: join_sep_Cons)

lemma remote_path_of_eq:
  "rel \<noteq> [] \<Longrightarrow> remote_path_of pre rel
     = anchor (PurePosixPath pre) @ join_sep [slash] (parts (PurePosixPath pre) @ rel)"
  by (simp add: remote_path_of_def str_path_def truediv_def)

lemma remote_path_of_canonical:
  "rel \<noteq> [] \<Longrightarrow> canonical_prefix pre \<Longrightarrow> remote_path_of pre rel = pre @ join_sep [slash] rel"
  unfolding canonical_prefix_def by (simp add: remote_path_of_eq join_sep_append)

lemma collect_one_path:
  "collect_one gt root pre (below root rel) nd = Inr r \<Longrightarrow>
   r ''path'' = Some (remote_path_of pre rel)"
  by (auto simp: collect_one_def Let_def relative_to_below binary_record_eq remote_path_of_def
        text_record_def split: sum.splits option.splits if_splits)

lemma collect_loop_paths:
  assumes "collect_loop gt root pre ents acc = Inr files"
    and "\<forall>(p, nd) \<in> set ents. \<exists>rel. rel \<noteq> [] \<and> p = below root rel"
  shows "map (\<lambda>r. r ''path'') files
     = map (\<lambda>r. r ''path'') acc
       @ map (\<lambda>(p, nd). Some (remote_path_of pre (drop (length (parts root)) (parts p))))
           (filter (\<lambda>(p, nd). is_file nd) ents)"
  using assms
proof (induction ents arbitrary: acc)
  case Nil
  then show ?case by simp
next
  case (Cons e ents)
  obtain p nd where e: "e = (p, nd)" by (cases e)
  from Cons.prems(2) e obtain rel where rel: "p = below root rel" by auto
  from Cons.prems(2) have tl: "\<forall>(p, nd) \<in> set ents. \<exists>rel. rel \<noteq> [] \<and> p = below root rel"
    by simp
  show ?case
  proof (cases "is_file nd")
    case False
    with Cons.prems(1) e have "collect_loop gt root pre ents acc = Inr files" by simp
    from Cons.IH [OF this tl] False e show ?thesis by simp
  next
    case True
    with Cons.prems(1) e obtain r where r: "collect_one gt root pre p nd = Inr r"
      and rest: "collect_loop gt root pre ents (acc @ [r]) = Inr files"
      by (auto split: sum.splits)
    from r rel have "r ''path'' = Some (remote_path_of pre rel)"
      by (simp add: collect_one_path)
    with Cons.IH [OF rest tl] True e rel show ?thesis by (simp add: parts_below)
  qed
qed

text \<open>
  A prefix made of parts that are not empty, are not \<open>.\<close> and hold no slash, each
  followed by one slash, is in that form; so is the default \<open>my_dir_name/\<close>.
\<close>

lemma split_sep_part:
  "sep \<notin> set c \<Longrightarrow> split_sep sep (c @ sep # rest) = c # split_sep sep rest"
  by (induction c) auto

lemma split_sep_parts:
  "list_all (\<lambda>c. sep \<notin> set c) cs \<Longrightarrow>
   split_sep sep (concat (map (\<lambda>c. c @ [sep]) cs)) = cs @ [[]]"
  by (induction cs) (simp_all add: split_sep_part)

lemma splitroot_plain:
  "list_all plain_part cs \<Longrightarrow>
   splitroot (concat (map (\<lambda>c. c @ [slash]) cs)) = ([], concat (map (\<lambda>c. c @ [slash]) cs))"
proof (cases cs)
  case Nil
  then show ?thesis by (simp add: splitroot_def)
next
  case (Cons c cs')
  assume "list_all plain_part cs"
  with Cons obtain x xs where "c = x # xs" and "x \<noteq> slash"
    by (cases c) (auto simp: plain_part_def)
  with Cons show ?thesis by (simp add: splitroot_def)
qed

lemma PurePosixPath_plain:
  assumes "list_all plain_part cs"
  shows "PurePosixPath (concat (map (\<lambda>c. c @ [slash]) cs)) = \<lparr>anchor = [], parts = cs\<rparr>"
proof -
  from assms have "list_all (\<lambda>c. slash \<notin> set c) cs"
    by (auto simp: list_all_iff plain_part_def)
  then have "split_sep slash (concat (map (\<lambda>c. c @ [slash]) cs)) = cs @ [[]]"
    by (rule split_sep_parts)
  moreover from assms have "filter (\<lambda>x. x \<noteq> [] \<and> x \<noteq> [dot]) cs = cs"
    by (auto simp: list_all_iff plain_part_def filter_id_conv)
  ultimately show ?thesis
    by (simp add: PurePosixPath_def splitroot_plain [OF assms])
qed

lemma canonical_prefix_plain:
  "list_all plain_part cs \<Longrightarrow> canonical_prefix (concat (map (\<lambda>c. c @ [slash]) cs))"
  by (simp add: canonical_prefix_def PurePosixPath_plain)

lemma canonical_prefix_examples:
  "canonical_prefix (lit ''my_dir_name/'')"
  "canonical_prefix (lit ''/srv/'')"
  "canonical_prefix []"
  "\<not> canonical_prefix (lit ''alice'')"
  "\<not> canonical_prefix (lit ''alice//'')"
  "\<not> canonical_prefix (lit ''./'')"
  by (simp_all add: canonical_prefix_def PurePosixPath_def splitroot_def lit_def slash_def
        dot_def)

lemma canonical_alice: "canonical_prefix (lit ''alice/'')"
  by (simp add: canonical_prefix_def PurePosixPath_alice slash_lit lit_append)

lemma demo_paths:
  "map (\<lambda>r. r ''path'') demo_files = [Some (lit ''alice/a.txt''), Some (lit ''alice/b.png'')]"
  by (simp add: demo_files_def)

text \<open>
  C3, as amended. Let the collector return the list \<open>files\<close>. The paths of its records
  are, in the order of the walk and one for each regular file, the anchor of the parsed
  remote prefix followed by the parts of the prefix and the file's parts relative to
  the root, joined with single forward slashes. When the prefix is written in the form
  that \<open>pathlib\<close> gives it, with one slash after each part, each path is the prefix
  string followed by the file's relative parts joined with forward slashes.
\<close>

theorem C3_remote_path:
  assumes "mCall_CollectFiles fs guess_type root remote_prefix = Inr files"
  shows "joined_paths fs root remote_prefix files
    \<and> (canonical_prefix remote_prefix \<longrightarrow> concatenated_paths fs root remote_prefix files)"
proof -
  let ?ents = "filter (\<lambda>(p, nd). is_file nd) (walked fs root)"
  from mCall_CollectFiles_Inr [OF assms] obtain ents where
    ents: "rglob fs root = Inr ents" and walked: "walked fs root = ents"
    and loop: "collect_loop guess_type root remote_prefix ents [] = Inr files"
    by blast
  have below: "\<forall>(p, nd) \<in> set ents. \<exists>rel. rel \<noteq> [] \<and> p = below root rel"
    using rglob_below [OF ents] by blast
  have paths: "map (\<lambda>r. r ''path'') files
      = map (\<lambda>(p, nd). Some (remote_path_of remote_prefix
                               (drop (length (parts root)) (parts p)))) ?ents"
    using collect_loop_paths [OF loop below] walked by simp
  have rel: "drop (length (parts root)) (parts p) \<noteq> []" if "(p, nd) \<in> set ?ents" for p nd
  proof -
    from that walked have "(p, nd) \<in> set ents" by simp
    then obtain r where "r \<noteq> []" and "p = below root r" using rglob_below [OF ents] by blast
    then show ?thesis by (simp only: parts_below not_False_eq_True)
  qed
  have general: "map (\<lambda>(p, nd). Some (remote_path_of remote_prefix
                                   (drop (length (parts root)) (parts p)))) ?ents
      = map (\<lambda>(p, nd). Some (anchor (PurePosixPath remote_prefix)
                @ join_sep [slash] (parts (PurePosixPath remote_prefix)
                                     @ drop (length (parts root)) (parts p)))) ?ents"
  proof (rule map_cong [OF refl])
    fix e assume mem: "e \<in> set ?ents"
    obtain p nd where e: "e = (p, nd)" by (cases e)
    from mem e have "(p, nd) \<in> set ?ents" by simp
    then have "drop (length (parts root)) (parts p) \<noteq> []" by (rule rel)
    with e show "(case e of (p, nd) \<Rightarrow> Some (remote_path_of remote_prefix
                                   (drop (length (parts root)) (parts p))))
        = (case e of (p, nd) \<Rightarrow> Some (anchor (PurePosixPath remote_prefix)
                @ join_sep [slash] (parts (PurePosixPath remote_prefix)
                                     @ drop (length (parts root)) (parts p))))"
      by (simp add: remote_path_of_eq)
  qed
  have special: "map (\<lambda>(p, nd). Some (remote_path_of remote_prefix
                                   (drop (length (parts root)) (parts p)))) ?ents
      = map (\<lambda>(p, nd). Some (remote_prefix
                               @ join_sep [slash] (drop (length (parts root)) (parts p)))) ?ents"
    if "canonical_prefix remote_prefix"
  proof (rule map_cong [OF refl])
    fix e assume mem: "e \<in> set ?ents"
    obtain p nd where e: "e = (p, nd)" by (cases e)
    from mem e have "(p, nd) \<in> set ?ents" by simp
    then have "drop (length (parts root)) (parts p) \<noteq> []" by (rule rel)
    with e that show "(case e of (p, nd) \<Rightarrow> Some (remote_path_of remote_prefix
                                   (drop (length (parts root)) (parts p))))
        = (case e of (p, nd) \<Rightarrow> Some (remote_prefix
                               @ join_sep [slash] (drop (length (parts root)) (parts p))))"
      by (simp add: remote_path_of_canonical)
  qed
  from paths general special show ?thesis
    by (simp add: joined_paths_def concatenated_paths_def)
qed

theorem C3_remote_path_witness:
  "mCall_CollectFiles demo_fs demo_guess_type (Path (lit ''week1'')) (lit ''alice/'')
     = Inr demo_files
   \<and> canonical_prefix (lit ''alice/'')
   \<and> joined_paths demo_fs (Path (lit ''week1'')) (lit ''alice/'') demo_files
   \<and> concatenated_paths demo_fs (Path (lit ''week1'')) (lit ''alice/'') demo_files
   \<and> map (\<lambda>r. r ''path'') demo_files = [Some (lit ''alice/a.txt''), Some (lit ''alice/b.png'')]"
  using C3_remote_path [OF demo_collect] demo_collect canonical_alice demo_paths by simp

text \<open>
  C3, as stated, fails for the prefix \<open>alice\<close>, which has no slash at its end: the
  collector returns the paths \<open>alice/a.txt\<close> and \<open>alice/b.png\<close>, and the prefix put
  before the relative paths gives \<open>alicea.txt\<close> and \<open>aliceb.png\<close>.
\<close>

theorem C3_counterexample:
  "mCall_CollectFiles demo_fs demo_guess_type (Path (lit ''week1'')) (lit ''alice'')
     = Inr demo_files
   \<and> \<not> concatenated_paths demo_fs (Path (lit ''week1'')) (lit ''alice'') demo_files"
proof (rule conjI)
  show "mCall_CollectFiles demo_fs demo_guess_type (Path (lit ''week1'')) (lit ''alice'')
      = Inr demo_files"
    by (rule demo_collect_no_slash)
  show "\<not> concatenated_paths demo_fs (Path (lit ''week1'')) (lit ''alice'') demo_files"
    unfolding concatenated_paths_def demo_entries demo_paths
    by (simp add: Path_lit slash_lit lit_append)
qed

section \<open>The ways through the workflow\<close>

text \<open>
  Every way through the body of the session, by the trace it leaves: a tool is missing;
  the branch step ends the run, by a signal that \<open>except Exception\<close> does not catch or
  by a line that cannot be printed; or the branch step is passed and the push is called.
\<close>

lemma session_body_outcomes:
  assumes "session_body stdout rm files branch_name pr_title pr_body (s0, tr0)
             = (res, (s', tr))"
  shows "(\<exists>k. res = Inl (KeyError k) \<and> tr = tr0 \<and> s' = s0)
    \<or> (\<exists>o1 e. res = Inl e
          \<and> tr = tr0 @ [Invoke (lit ''create_branch'') (create_branch_args branch_name) o1]
          \<and> (o1 = Some e \<and> \<not> is_Exception e
             \<or> e = UnicodeEncodeError \<and> \<not> stdout (msg_branch_exists branch_name)
               \<and> (o1 = None \<and> \<not> stdout (msg_branch_created branch_name)
                  \<or> (\<exists>e1. o1 = Some e1 \<and> is_Exception e1))))
    \<or> (\<exists>o1 m o2 rest.
          stdout m
          \<and> (o1 = None \<and> m = msg_branch_created branch_name
             \<or> o1 = None \<and> m = msg_branch_exists branch_name
               \<and> \<not> stdout (msg_branch_created branch_name)
             \<or> (\<exists>e. o1 = Some e \<and> is_Exception e \<and> m = msg_branch_exists branch_name))
          \<and> tr = tr0 @ [Invoke (lit ''create_branch'') (create_branch_args branch_name) o1,
                        Print m,
                        Invoke (lit ''push_files'')
                          (push_files_args branch_name files pr_title) o2] @ rest
          \<and> ((\<exists>e. o2 = Some e \<and> res = Inl e \<and> rest = [])
             \<or> (\<exists>e. o2 = None \<and> res = Inl e
                   \<and> rest = [Invoke (lit ''create_pull_request'')
                              (create_pull_request_args pr_title pr_body branch_name) (Some e)])
             \<or> (o2 = None \<and> res = Inl UnicodeEncodeError \<and> \<not> stdout msg_pr_done
                   \<and> rest = [Invoke (lit ''create_pull_request'')
                              (create_pull_request_args pr_title pr_body branch_name) None])
             \<or> (o2 = None \<and> res = Inr ()
                   \<and> rest = [Invoke (lit ''create_pull_request'')
                              (create_pull_request_args pr_title pr_body branch_name) None,
                             Print msg_pr_done])))"
  using assms
  by (auto simp: session_body_def try_create_branch_def invoke_def print_def tool_map_def
      split: sum.splits prod.splits option.splits if_splits)

text \<open>The three ways through the workflow: no files, no session, or a session.\<close>

lemma rCall_outcomes:
  assumes "rCall_PushAndPR fs guess_type stdout rm my_dir_name dir_name branch_name pr_title
             pr_body git_token s = (res, (s', tr))"
  shows "(\<exists>e. mCall_CollectFiles fs guess_type (Path dir_name) my_dir_name = Inl e
            \<and> res = Inl e \<and> tr = [] \<and> s' = s)
    \<or> (\<exists>files e. mCall_CollectFiles fs guess_type (Path dir_name) my_dir_name = Inr files
            \<and> connect rm git_token s = (Some e, s') \<and> res = Inl e \<and> tr = [])
    \<or> (\<exists>files s1 s2 body.
            mCall_CollectFiles fs guess_type (Path dir_name) my_dir_name = Inr files
            \<and> connect rm git_token s = (None, s1)
            \<and> session_body stdout rm files branch_name pr_title pr_body
                  (s1, [Acquire git_token])
                = (res, (s2, body))
            \<and> tr = body @ [Release] \<and> s' = release rm s2)"
  using assms
  by (auto simp: rCall_PushAndPR_def split: sum.splits prod.splits option.splits)

subsection \<open>The concrete runs\<close>

lemma args_branch:
  "create_branch_args b ''branch'' = Some (Str b)"
  "push_files_args b fl t ''branch'' = Some (Str b)"
  by (simp_all add: create_branch_args_def push_files_args_def)

lemma utf8_prints: "utf8_stdout msg"
  by (simp add: utf8_stdout_def)

lemma ascii_cannot_print:
  "\<not> ascii_stdout (msg_branch_exists b)"
  "\<not> ascii_stdout (msg_branch_created b)"
  "\<not> ascii_stdout msg_pr_done"
  by (simp_all add: ascii_stdout_def msg_branch_exists_def msg_branch_created_def
        msg_pr_done_def)

lemmas run_eval =
  rCall_PushAndPR_def session_body_def try_create_branch_def invoke_def print_def
  demo_collect tool_map_def demo_remote_def readonly_remote_def
  demo_create_branch_def demo_push_files_def demo_create_pull_request_def
  refuse_create_branch_def args_branch utf8_prints ascii_cannot_print

lemma run_fresh:
  "rCall_PushAndPR demo_fs demo_guess_type utf8_stdout demo_remote (lit ''alice/'')
     (lit ''week1'') demo_branch demo_title demo_body demo_token []
   = (Inr (), ([demo_branch], fresh_trace))"
  by (simp add: run_eval fresh_trace_def)

lemma run_branch_exists:
  "rCall_PushAndPR demo_fs demo_guess_type utf8_stdout demo_remote (lit ''alice/'')
     (lit ''week1'') demo_branch demo_title demo_body demo_token [demo_branch]
   = (Inr (), ([demo_branch], branch_exists_trace))"
  by (simp add: run_eval branch_exists_trace_def)

lemma run_readonly:
  "rCall_PushAndPR demo_fs demo_guess_type utf8_stdout readonly_remote (lit ''alice/'')
     (lit ''week1'') demo_branch demo_title demo_body demo_token []
   = (Inl (Exception (lit ''Branch not found'')), ([], readonly_trace))"
  by (simp add: run_eval readonly_trace_def)

lemma run_ascii:
  "rCall_PushAndPR demo_fs demo_guess_type ascii_stdout readonly_remote (lit ''alice/'')
     (lit ''week1'') demo_branch demo_title demo_body demo_token []
   = (Inl UnicodeEncodeError, ([], ascii_trace))"
  by (simp add: run_eval ascii_trace_def)

lemma run_locked:
  "rCall_PushAndPR demo_fs demo_guess_type utf8_stdout demo_remote (lit ''alice/'')
     (lit ''locked'') demo_branch demo_title demo_body demo_token []
   = (Inl PermissionError, ([], []))"
  by (simp add: rCall_PushAndPR_def collect_locked)

section \<open>Errors of the remote calls\<close>

text \<open>
  C4, as amended. Let the \<open>create_branch\<close> call raise an exception, that is an
  instance of Python's class \<open>Exception\<close>, and let the standard output be able to
  encode the continuation line. Then the workflow goes on: the trace of the run is the
  session acquired, the failed call for the branch, the continuation line printed, and
  then the \<open>push_files\<close> call, whose arguments name the branch, the commit message and,
  under \<open>files\<close>, the list that the collector returned. If the run ends in an error at
  all, it is the error of \<open>push_files\<close> or of \<open>create_pull_request\<close>, or the last
  line could not be printed after the pull request was made.
\<close>

theorem C4_branch_error:
  assumes "rCall_PushAndPR fs guess_type stdout rm my_dir_name dir_name branch_name pr_title
             pr_body git_token s = (res, (s', tr))"
    and "Invoke (lit ''create_branch'') a (Some e) \<in> set tr"
    and "is_Exception e"
    and "line = [0x2139, 0xFE0F, 0x20, 0x20, 0x27] @ branch_name
             @ [0x27, 0x20, 0xBE0C, 0xB79C, 0xCE58, 0x20, 0xC774, 0xBBF8, 0x20, 0xC874,
                0xC7AC, 0x20, 0x2014, 0x20, 0xACC4, 0xC18D, 0x20, 0xC9C4, 0xD589]"
    and "stdout line"
  shows "\<exists>files a' out rest.
      mCall_CollectFiles fs guess_type (Path dir_name) my_dir_name = Inr files
      \<and> tr = [Acquire git_token,
              Invoke (lit ''create_branch'') a (Some e),
              Print line,
              Invoke (lit ''push_files'') a' out] @ rest
      \<and> a ''branch'' = Some (Str branch_name)
      \<and> a' ''branch'' = Some (Str branch_name)
      \<and> a' ''files'' = Some (Files files)
      \<and> a' ''message'' = Some (Str pr_title)
      \<and> (\<forall>e'. res = Inl e' \<longrightarrow>
            out = Some e'
            \<or> (\<exists>a2. Invoke (lit ''create_pull_request'') a2 (Some e') \<in> set rest)
            \<or> (e' = UnicodeEncodeError
                \<and> (\<exists>a2. Invoke (lit ''create_pull_request'') a2 None \<in> set rest)))"
proof -
  from assms(4,5) have line: "line = msg_branch_exists branch_name"
    and prints: "stdout (msg_branch_exists branch_name)"
    by (simp_all add: msg_branch_exists_def)
  from rCall_outcomes [OF assms(1)] assms(2) obtain files s1 s2 body where
    files: "mCall_CollectFiles fs guess_type (Path dir_name) my_dir_name = Inr files"
    and body: "session_body stdout rm files branch_name pr_title pr_body
                 (s1, [Acquire git_token]) = (res, (s2, body))"
    and tr: "tr = body @ [Release]"
    by auto
  from session_body_outcomes [OF body] assms(2,3) tr prints
  obtain out rest where
    shape: "tr = [Acquire git_token,
              Invoke (lit ''create_branch'') (create_branch_args branch_name) (Some e),
              Print (msg_branch_exists branch_name),
              Invoke (lit ''push_files'') (push_files_args branch_name files pr_title) out]
             @ rest"
    and a: "a = create_branch_args branch_name"
    and fails: "\<forall>e'. res = Inl e' \<longrightarrow>
            out = Some e'
            \<or> (\<exists>a2. Invoke (lit ''create_pull_request'') a2 (Some e') \<in> set rest)
            \<or> (e' = UnicodeEncodeError
                \<and> (\<exists>a2. Invoke (lit ''create_pull_request'') a2 None \<in> set rest))"
    by (elim disjE exE conjE) auto
  have "push_files_args branch_name files pr_title ''branch'' = Some (Str branch_name)"
    and "push_files_args branch_name files pr_title ''files'' = Some (Files files)"
    and "push_files_args branch_name files pr_title ''message'' = Some (Str pr_title)"
    and "create_branch_args branch_name ''branch'' = Some (Str branch_name)"
    by (simp_all add: push_files_args_def create_branch_args_def)
  with files shape a fails line show ?thesis by blast
qed

theorem C4_branch_error_witness:
  "rCall_PushAndPR demo_fs demo_guess_type utf8_stdout demo_remote (lit ''alice/'')
     (lit ''week1'') demo_branch demo_title demo_body demo_token [demo_branch]
   = (Inr (), ([demo_branch], branch_exists_trace))
   \<and> Invoke (lit ''create_branch'') (create_branch_args demo_branch)
        (Some (Exception (lit ''Reference already exists''))) \<in> set branch_exists_trace
   \<and> is_Exception (Exception (lit ''Reference already exists''))
   \<and> utf8_stdout ([0x2139, 0xFE0F, 0x20, 0x20, 0x27] @ demo_branch
             @ [0x27, 0x20, 0xBE0C, 0xB79C, 0xCE58, 0x20, 0xC774, 0xBBF8, 0x20, 0xC874,
                0xC7AC, 0x20, 0x2014, 0x20, 0xACC4, 0xC18D, 0x20, 0xC9C4, 0xD589])
   \<and> mCall_CollectFiles demo_fs demo_guess_type (Path (lit ''week1'')) (lit ''alice/'')
       = Inr demo_files
   \<and> demo_files \<noteq> []
   \<and> (\<exists>a' out rest.
        branch_exists_trace
          = [Acquire demo_token,
             Invoke (lit ''create_branch'') (create_branch_args demo_branch)
               (Some (Exception (lit ''Reference already exists''))),
             Print ([0x2139, 0xFE0F, 0x20, 0x20, 0x27] @ demo_branch
             @ [0x27, 0x20, 0xBE0C, 0xB79C, 0xCE58, 0x20, 0xC774, 0xBBF8, 0x20, 0xC874,
                0xC7AC, 0x20, 0x2014, 0x20, 0xACC4, 0xC18D, 0x20, 0xC9C4, 0xD589]),
             Invoke (lit ''push_files'') a' out] @ rest
        \<and> a' ''branch'' = Some (Str demo_branch)
        \<and> a' ''files'' = Some (Files demo_files)
        \<and> a' ''message'' = Some (Str demo_title))"
proof -
  have m: "Invoke (lit ''create_branch'') (create_branch_args demo_branch)
        (Some (Exception (lit ''Reference already exists''))) \<in> set branch_exists_trace"
    by (simp add: branch_exists_trace_def)
  have x: "is_Exception (Exception (lit ''Reference already exists''))" by simp
  have n: "demo_files \<noteq> []" by (simp add: demo_files_def)
  have u: "utf8_stdout ([0x2139, 0xFE0F, 0x20, 0x20, 0x27] @ demo_branch
             @ [0x27, 0x20, 0xBE0C, 0xB79C, 0xCE58, 0x20, 0xC774, 0xBBF8, 0x20, 0xC874,
                0xC7AC, 0x20, 0x2014, 0x20, 0xACC4, 0xC18D, 0x20, 0xC9C4, 0xD589])"
    by (rule utf8_prints)
  from C4_branch_error [OF run_branch_exists m x refl u] demo_collect
  have "\<exists>a' out rest.
        branch_exists_trace
          = [Acquire demo_token,
             Invoke (lit ''create_branch'') (create_branch_args demo_branch)
               (Some (Exception (lit ''Reference already exists''))),
             Print ([0x2139, 0xFE0F, 0x20, 0x20, 0x27] @ demo_branch
             @ [0x27, 0x20, 0xBE0C, 0xB79C, 0xCE58, 0x20, 0xC774, 0xBBF8, 0x20, 0xC874,
                0xC7AC, 0x20, 0x2014, 0x20, 0xACC4, 0xC18D, 0x20, 0xC9C4, 0xD589]),
             Invoke (lit ''push_files'') a' out] @ rest
        \<and> a' ''branch'' = Some (Str demo_branch)
        \<and> a' ''files'' = Some (Files demo_files)
        \<and> a' ''message'' = Some (Str demo_title)"
    by auto
  with run_branch_exists m x u demo_collect n show ?thesis by blast
qed

text \<open>
  C4, as stated, fails on a console that encodes ASCII only. The remote refuses the
  branch creation with an instance of \<open>Exception\<close>; the handler's \<open>print\<close> of the
  continuation line raises \<open>UnicodeEncodeError\<close>, the run ends with that error, and
  \<open>push_files\<close> is never called.
\<close>

theorem C4_counterexample:
  "rCall_PushAndPR demo_fs demo_guess_type ascii_stdout readonly_remote (lit ''alice/'')
     (lit ''week1'') demo_branch demo_title demo_body demo_token []
   = (Inl UnicodeEncodeError, ([], ascii_trace))
   \<and> Invoke (lit ''create_branch'') (create_branch_args demo_branch)
        (Some (Exception (lit ''Resource not accessible''))) \<in> set ascii_trace
   \<and> is_Exception (Exception (lit ''Resource not accessible''))
   \<and> invocations (lit ''push_files'') ascii_trace = []"
  by (simp add: run_ascii) (simp add: ascii_trace_def)

text \<open>
  C5. If the \<open>push_files\<close> call raises an error, the workflow ends with that error, the
  trace has no \<open>create_pull_request\<close> call, and \<open>push_files\<close> was called that one time
  only.
\<close>

theorem C5_push_error:
  assumes "rCall_PushAndPR fs guess_type stdout rm my_dir_name dir_name branch_name pr_title
             pr_body git_token s = (res, (s', tr))"
    and "(a, Some e) \<in> set (invocations (lit ''push_files'') tr)"
  shows "res = Inl e
    \<and> invocations (lit ''create_pull_request'') tr = []
    \<and> invocations (lit ''push_files'') tr = [(a, Some e)]"
proof -
  from rCall_outcomes [OF assms(1)] assms(2) obtain files s1 s2 body where
    body: "session_body stdout rm files branch_name pr_title pr_body
             (s1, [Acquire git_token]) = (res, (s2, body))"
    and tr: "tr = body @ [Release]"
    by auto
  from session_body_outcomes [OF body] assms(2) tr show ?thesis
    by (elim disjE exE conjE) auto
qed

theorem C5_push_error_witness:
  "rCall_PushAndPR demo_fs demo_guess_type utf8_stdout readonly_remote (lit ''alice/'')
     (lit ''week1'') demo_branch demo_title demo_body demo_token []
   = (Inl (Exception (lit ''Branch not found'')), ([], readonly_trace))
   \<and> (push_files_args demo_branch demo_files demo_title,
        Some (Exception (lit ''Branch not found'')))
       \<in> set (invocations (lit ''push_files'') readonly_trace)
   \<and> invocations (lit ''create_pull_request'') readonly_trace = []
   \<and> invocations (lit ''push_files'') readonly_trace
       = [(push_files_args demo_branch demo_files demo_title,
           Some (Exception (lit ''Branch not found'')))]"
proof -
  have m: "(push_files_args demo_branch demo_files demo_title,
        Some (Exception (lit ''Branch not found'')))
       \<in> set (invocations (lit ''push_files'') readonly_trace)"
    by (simp add: readonly_trace_def)
  from C5_push_error [OF run_readonly m] run_readonly m show ?thesis by simp
qed

section \<open>The target repository\<close>

text \<open>
  C6. Whatever the arguments of the workflow, every tool call of a run is one of
  \<open>create_branch\<close>, \<open>push_files\<close> and \<open>create_pull_request\<close>, its owner is
  \<open>SGCS-Release-Git-Project\<close> and its repository is \<open>release-collect-game\<close>; the branch
  is created from \<open>main\<close> and the pull request has \<open>main\<close> as its base.
\<close>

theorem C6_fixed_repository:
  assumes "rCall_PushAndPR fs guess_type stdout rm my_dir_name dir_name branch_name pr_title
             pr_body git_token s = (res, (s', tr))"
    and "Invoke nm a out \<in> set tr"
  shows "a ''owner'' = Some (Str (lit ''SGCS-Release-Git-Project''))
    \<and> a ''repo'' = Some (Str (lit ''release-collect-game''))
    \<and> (nm = lit ''create_branch'' \<and> a ''from_branch'' = Some (Str (lit ''main''))
       \<or> nm = lit ''push_files''
       \<or> nm = lit ''create_pull_request'' \<and> a ''base'' = Some (Str (lit ''main'')))"
proof -
  from rCall_outcomes [OF assms(1)] assms(2) obtain files s1 s2 body where
    body: "session_body stdout rm files branch_name pr_title pr_body
             (s1, [Acquire git_token]) = (res, (s2, body))"
    and tr: "tr = body @ [Release]"
    by auto
  from session_body_outcomes [OF body] assms(2) tr show ?thesis
    by (elim disjE exE conjE)
       (auto simp: create_branch_args_def push_files_args_def create_pull_request_args_def)
qed

theorem C6_fixed_repository_witness:
  "rCall_PushAndPR demo_fs demo_guess_type utf8_stdout demo_remote (lit ''alice/'')
     (lit ''week1'') demo_branch demo_title demo_body demo_token []
   = (Inr (), ([demo_branch], fresh_trace))
   \<and> Invoke (lit ''create_branch'') (create_branch_args demo_branch) None \<in> set fresh_trace
   \<and> create_branch_args demo_branch ''owner'' = Some (Str (lit ''SGCS-Release-Git-Project''))
   \<and> create_branch_args demo_branch ''repo'' = Some (Str (lit ''release-collect-game''))
   \<and> create_branch_args demo_branch ''from_branch'' = Some (Str (lit ''main''))
   \<and> Invoke (lit ''push_files'') (push_files_args demo_branch demo_files demo_title) None
       \<in> set fresh_trace
   \<and> push_files_args demo_branch demo_files demo_title ''owner''
       = Some (Str (lit ''SGCS-Release-Git-Project''))
   \<and> push_files_args demo_branch demo_files demo_title ''repo''
       = Some (Str (lit ''release-collect-game''))
   \<and> Invoke (lit ''create_pull_request'')
        (create_pull_request_args demo_title demo_body demo_branch) None \<in> set fresh_trace
   \<and> create_pull_request_args demo_title demo_body demo_branch ''owner''
       = Some (Str (lit ''SGCS-Release-Git-Project''))
   \<and> create_pull_request_args demo_title demo_body demo_branch ''repo''
       = Some (Str (lit ''release-collect-game''))
   \<and> create_pull_request_args demo_title demo_body demo_branch ''base''
       = Some (Str (lit ''main''))"
proof -
  have m1: "Invoke (lit ''create_branch'') (create_branch_args demo_branch) None
      \<in> set fresh_trace"
    and m2: "Invoke (lit ''push_files'') (push_files_args demo_branch demo_files demo_title) None
      \<in> set fresh_trace"
    and m3: "Invoke (lit ''create_pull_request'')
        (create_pull_request_args demo_title demo_body demo_branch) None \<in> set fresh_trace"
    by (simp_all add: fresh_trace_def)
  from C6_fixed_repository [OF run_fresh m1] C6_fixed_repository [OF run_fresh m2]
    C6_fixed_repository [OF run_fresh m3] run_fresh m1 m2 m3
  show ?thesis by simp
qed

section \<open>The order of collection, session and calls\<close>

text \<open>
  C8. If the collector raises, the workflow ends with that error, with an empty trace
  (no session acquired, no tool called, nothing printed) and with the remote state as it
  was. So a run with any event in its trace has its list of files already.
\<close>

theorem C8_collection_first:
  assumes "rCall_PushAndPR fs guess_type stdout rm my_dir_name dir_name branch_name pr_title
             pr_body git_token s = (res, (s', tr))"
  shows "(\<forall>e. mCall_CollectFiles fs guess_type (Path dir_name) my_dir_name = Inl e
            \<longrightarrow> res = Inl e \<and> tr = [] \<and> s' = s)
    \<and> (tr \<noteq> [] \<longrightarrow>
         (\<exists>files. mCall_CollectFiles fs guess_type (Path dir_name) my_dir_name = Inr files))"
  using rCall_outcomes [OF assms] by auto

theorem C8_collection_first_witness:
  "rCall_PushAndPR demo_fs demo_guess_type utf8_stdout demo_remote (lit ''alice/'')
     (lit ''locked'') demo_branch demo_title demo_body demo_token []
   = (Inl PermissionError, ([], []))
   \<and> mCall_CollectFiles demo_fs demo_guess_type (Path (lit ''locked'')) (lit ''alice/'')
       = Inl PermissionError
   \<and> rCall_PushAndPR demo_fs demo_guess_type utf8_stdout demo_remote (lit ''alice/'')
       (lit ''week1'') demo_branch demo_title demo_body demo_token []
     = (Inr (), ([demo_branch], fresh_trace))
   \<and> fresh_trace \<noteq> []
   \<and> (\<exists>files. mCall_CollectFiles demo_fs demo_guess_type (Path (lit ''week1'')) (lit ''alice/'')
                = Inr files)"
proof -
  have n: "fresh_trace \<noteq> []" by (simp add: fresh_trace_def)
  from C8_collection_first [OF run_locked] C8_collection_first [OF run_fresh]
    run_locked run_fresh collect_locked n
  show ?thesis by blast
qed

text \<open>
  C9. A run either never acquired a session, and then its trace is empty, or its trace
  begins with the session acquired and ends with the session released, with neither
  event in between, and the remote state it leaves is a released one. This holds for
  every result of the run, an error of any step or success.
\<close>

theorem C9_session_released:
  assumes "rCall_PushAndPR fs guess_type stdout rm my_dir_name dir_name branch_name pr_title
             pr_body git_token s = (res, (s', tr))"
  shows "tr = []
    \<or> (\<exists>body s2. tr = Acquire git_token # body @ [Release]
          \<and> (\<forall>ev \<in> set body. ev \<noteq> Release \<and> (\<forall>t. ev \<noteq> Acquire t))
          \<and> s' = release rm s2)"
proof -
  from rCall_outcomes [OF assms] consider "tr = []"
    | files s1 s2 body where
        "session_body stdout rm files branch_name pr_title pr_body (s1, [Acquire git_token])
            = (res, (s2, body))"
        "tr = body @ [Release]" "s' = release rm s2"
    by auto
  then show ?thesis
  proof cases
    case 1
    then show ?thesis by simp
  next
    case 2
    from session_body_outcomes [OF 2(1)] 2(2,3) show ?thesis
      by (elim disjE exE conjE) auto
  qed
qed

theorem C9_session_released_witness:
  "rCall_PushAndPR demo_fs demo_guess_type utf8_stdout readonly_remote (lit ''alice/'')
     (lit ''week1'') demo_branch demo_title demo_body demo_token []
   = (Inl (Exception (lit ''Branch not found'')), ([], readonly_trace))
   \<and> readonly_trace \<noteq> []
   \<and> hd readonly_trace = Acquire demo_token
   \<and> last readonly_trace = Release
   \<and> (\<exists>body s2. readonly_trace = Acquire demo_token # body @ [Release]
         \<and> Release \<notin> set body \<and> Acquire demo_token \<notin> set body
         \<and> [] = release readonly_remote s2)"
proof -
  have n: "readonly_trace \<noteq> []" "hd readonly_trace = Acquire demo_token"
    "last readonly_trace = Release"
    by (simp_all add: readonly_trace_def)
  from C9_session_released [OF run_readonly] n run_readonly show ?thesis
    by auto
qed

section \<open>The collector on an empty or missing root\<close>

lemma rglob_not_dir:
  "fs root = Inr None \<or> (\<exists>nd. fs root = Inr (Some nd) \<and> \<not> is_dir nd) \<Longrightarrow>
   rglob fs root = Inr []"
proof (cases "fs root = Inr None")
  case True
  then show ?thesis by (simp add: rglob_def)
next
  case False
  assume "fs root = Inr None \<or> (\<exists>nd. fs root = Inr (Some nd) \<and> \<not> is_dir nd)"
  with False obtain nd where nd: "fs root = Inr (Some nd)" "\<not> is_dir nd" by blast
  then have "walk root (resolve nd) = []" by (cases nd) simp_all
  with nd show ?thesis by (simp add: rglob_def)
qed

text \<open>
  C7. Collecting a root that is an empty directory returns the empty list of records; it
  does not raise.
\<close>

theorem C7_empty_root:
  "fs root = Inr (Some (Dir [])) \<Longrightarrow>
   mCall_CollectFiles fs guess_type root remote_prefix = Inr []"
  by (simp add: mCall_CollectFiles_def rglob_def)

theorem C7_empty_root_witness:
  "demo_fs (Path (lit ''empty'')) = Inr (Some (Dir []))
   \<and> mCall_CollectFiles demo_fs demo_guess_type (Path (lit ''empty'')) (lit ''alice/'') = Inr []"
  using demo_fs_simps(2)
    C7_empty_root [of demo_fs "Path (lit ''empty'')" demo_guess_type "lit ''alice/''"]
  by simp

text \<open>
  C10, as amended. Collecting a root for which the file system reports no entry, or an
  entry that is not a directory, returns the empty list of records and does not raise.
  Collecting a root whose \<open>stat\<close> fails with any other error raises that error.
\<close>

theorem C10_missing_root:
  "(fs root = Inr None \<or> (\<exists>nd. fs root = Inr (Some nd) \<and> \<not> is_dir nd)
      \<longrightarrow> mCall_CollectFiles fs guess_type root remote_prefix = Inr [])
   \<and> (\<forall>e. fs root = Inl e \<longrightarrow> mCall_CollectFiles fs guess_type root remote_prefix = Inl e)"
proof (intro conjI impI allI)
  assume "fs root = Inr None \<or> (\<exists>nd. fs root = Inr (Some nd) \<and> \<not> is_dir nd)"
  then have "rglob fs root = Inr []" by (rule rglob_not_dir)
  then show "mCall_CollectFiles fs guess_type root remote_prefix = Inr []"
    by (simp add: mCall_CollectFiles_def)
next
  fix e assume "fs root = Inl e"
  then have "rglob fs root = Inl e" by (simp add: rglob_def)
  then show "mCall_CollectFiles fs guess_type root remote_prefix = Inl e"
    by (simp add: mCall_CollectFiles_def)
qed

theorem C10_missing_root_witness:
  "demo_fs (Path (lit ''missing'')) = Inr None
   \<and> mCall_CollectFiles demo_fs demo_guess_type (Path (lit ''missing'')) (lit ''alice/'') = Inr []
   \<and> demo_fs (Path (lit ''notes.txt'')) = Inr (Some (File [0x68, 0x69]))
   \<and> mCall_CollectFiles demo_fs demo_guess_type (Path (lit ''notes.txt'')) (lit ''alice/'') = Inr []
   \<and> demo_fs long_root = Inl (OSError (lit ''File name too long''))
   \<and> mCall_CollectFiles demo_fs demo_guess_type long_root (lit ''alice/'')
       = Inl (OSError (lit ''File name too long''))"
  using demo_fs_simps(4,5) demo_fs_long
    C10_missing_root [of demo_fs "Path (lit ''missing'')" demo_guess_type "lit ''alice/''"]
    C10_missing_root [of demo_fs "Path (lit ''notes.txt'')" demo_guess_type "lit ''alice/''"]
    C10_missing_root [of demo_fs long_root demo_guess_type "lit ''alice/''"]
  by simp

text \<open>
  C10, as stated, fails for a root that does not exist and whose name is longer than the
  file system allows: there is no entry at \<open>long_root\<close>, and the collector raises
  \<open>OSError\<close> where the claim has the empty list.
\<close>

theorem C10_counterexample:
  "\<not> has_entry demo_fs long_root
   \<and> mCall_CollectFiles demo_fs demo_guess_type long_root (lit ''alice/'')
       = Inl (OSError (lit ''File name too long''))
   \<and> mCall_CollectFiles demo_fs demo_guess_type long_root (lit ''alice/'') \<noteq> Inr []"
  by (simp add: has_entry_def demo_fs_long mCall_CollectFiles_def rglob_def)

end
